theory Spec2Isabelle
  imports Complex_Main
begin

section \<open>JavaScript numbers\<close>

text \<open>
  The player in \<^verbatim>\<open>script.js\<close> computes with JavaScript numbers. They are modelled
  as exact rationals extended with the three special values the code can meet:
  not-a-number (the duration of a media element before its metadata has arrived, and
  \<^verbatim>\<open>0/0\<close>) and the two infinities (\<^verbatim>\<open>x/0\<close>). Rounding of binary
  floating point and the sign of zero are not modelled.
\<close>

datatype jsnum = NaN | NInf | Fin rat | PInf

text \<open>Truthiness of a number: \<^verbatim>\<open>0\<close> and \<^verbatim>\<open>NaN\<close> are falsy.\<close>

fun js_falsy :: "jsnum \<Rightarrow> bool" where
  "js_falsy NaN = True"
| "js_falsy (Fin r) = (r = 0)"
| "js_falsy NInf = False"
| "js_falsy PInf = False"

text \<open>\<^verbatim>\<open>a < b\<close>; every comparison with \<^verbatim>\<open>NaN\<close> is false.\<close>

fun js_lt :: "jsnum \<Rightarrow> jsnum \<Rightarrow> bool" where
  "js_lt NaN b = False"
| "js_lt a NaN = False"
| "js_lt (Fin a) (Fin b) = (a < b)"
| "js_lt NInf NInf = False"
| "js_lt NInf b = True"
| "js_lt a NInf = False"
| "js_lt PInf b = False"
| "js_lt a PInf = True"

definition js_ge :: "jsnum \<Rightarrow> jsnum \<Rightarrow> bool" where
  "js_ge a b = (a \<noteq> NaN \<and> b \<noteq> NaN \<and> \<not> js_lt a b)"

definition js_gt :: "jsnum \<Rightarrow> jsnum \<Rightarrow> bool" where
  "js_gt a b = js_lt b a"

definition js_le :: "jsnum \<Rightarrow> jsnum \<Rightarrow> bool" where
  "js_le a b = js_ge b a"

text \<open>\<^verbatim>\<open>Math.max\<close>, \<^verbatim>\<open>Math.min\<close> and \<^verbatim>\<open>Math.floor\<close>.\<close>

definition js_max :: "jsnum \<Rightarrow> jsnum \<Rightarrow> jsnum" where
  "js_max a b = (if a = NaN \<or> b = NaN then NaN else if js_lt a b then b else a)"

definition js_min :: "jsnum \<Rightarrow> jsnum \<Rightarrow> jsnum" where
  "js_min a b = (if a = NaN \<or> b = NaN then NaN else if js_lt b a then b else a)"

fun js_floor :: "jsnum \<Rightarrow> jsnum" where
  "js_floor (Fin r) = Fin (of_int \<lfloor>r\<rfloor>)"
| "js_floor a = a"

fun js_neg :: "jsnum \<Rightarrow> jsnum" where
  "js_neg NaN = NaN"
| "js_neg NInf = PInf"
| "js_neg PInf = NInf"
| "js_neg (Fin r) = Fin (- r)"

fun js_add :: "jsnum \<Rightarrow> jsnum \<Rightarrow> jsnum" where
  "js_add NaN b = NaN"
| "js_add a NaN = NaN"
| "js_add (Fin a) (Fin b) = Fin (a + b)"
| "js_add PInf NInf = NaN"
| "js_add NInf PInf = NaN"
| "js_add PInf b = PInf"
| "js_add NInf b = NInf"
| "js_add a PInf = PInf"
| "js_add a NInf = NInf"

definition js_sub :: "jsnum \<Rightarrow> jsnum \<Rightarrow> jsnum" where
  "js_sub a b = js_add a (js_neg b)"

text \<open>The sign of a non-NaN number: \<open>-1\<close>, \<open>0\<close> or \<open>1\<close>.\<close>

fun js_sign :: "jsnum \<Rightarrow> int" where
  "js_sign NaN = 0"
| "js_sign NInf = - 1"
| "js_sign PInf = 1"
| "js_sign (Fin r) = (if r < 0 then - 1 else if r = 0 then 0 else 1)"

definition inf_of_sign :: "int \<Rightarrow> jsnum" where
  "inf_of_sign k = (if k = 0 then NaN else if k < 0 then NInf else PInf)"

fun js_mul :: "jsnum \<Rightarrow> jsnum \<Rightarrow> jsnum" where
  "js_mul NaN b = NaN"
| "js_mul a NaN = NaN"
| "js_mul (Fin a) (Fin b) = Fin (a * b)"
| "js_mul a b = inf_of_sign (js_sign a * js_sign b)"

text \<open>
  Division: a finite number over zero is an infinity of the dividend's sign,
  \<^verbatim>\<open>0/0\<close> is \<^verbatim>\<open>NaN\<close>, a finite number over an infinity is zero.
\<close>

fun js_div :: "jsnum \<Rightarrow> jsnum \<Rightarrow> jsnum" where
  "js_div NaN b = NaN"
| "js_div a NaN = NaN"
| "js_div (Fin a) (Fin b) = (if b = 0 then inf_of_sign (js_sign (Fin a)) else Fin (a / b))"
| "js_div (Fin a) b = Fin 0"
| "js_div a (Fin b) = (if b < 0 then js_neg a else a)"
| "js_div a b = NaN"

section \<open>Configuration (the constructor of \<^verbatim>\<open>VideoPlayer\<close>)\<close>

text \<open>
  The configuration object handed to the constructor. A field that is absent
  (\<^verbatim>\<open>undefined\<close>) is \<open>None\<close>; \<^verbatim>\<open>config.adVideo?.skipAfter\<close> is
  \<open>None\<close> both when \<^verbatim>\<open>adVideo\<close> is absent and when the field is. The titles,
  descriptions, MIME types, \<^verbatim>\<open>section\<close> and \<^verbatim>\<open>infoText\<close> are display
  text only and are left out.
\<close>

record raw_config =
  raw_wrapperId :: "string option"
  raw_mainVideo_url :: "string option"
  raw_adVideo_url :: "string option"
  raw_adVideo_skipAfter :: "jsnum option"
  raw_thumbnailUrl :: "string option"
  raw_skipBackwardSeconds :: "jsnum option"
  raw_skipForwardSeconds :: "jsnum option"
  raw_autoHideControlsDelay :: "jsnum option"

record config =
  wrapperId :: string
  mainVideo_url :: string
  adVideo_url :: string
  adVideo_skipAfter :: jsnum
  thumbnailUrl :: string
  skipBackwardSeconds :: jsnum
  skipForwardSeconds :: jsnum
  autoHideControlsDelay :: jsnum

text \<open>\<^verbatim>\<open>x || d\<close> on an optional number and on an optional string.\<close>

definition or_num :: "jsnum option \<Rightarrow> jsnum \<Rightarrow> jsnum" where
  "or_num x d = (case x of None \<Rightarrow> d | Some v \<Rightarrow> if js_falsy v then d else v)"

definition or_str :: "string option \<Rightarrow> string \<Rightarrow> string" where
  "or_str x d = (case x of None \<Rightarrow> d | Some v \<Rightarrow> if v = [] then d else v)"

text \<open>The object literal assigned to \<^verbatim>\<open>this.config\<close> (lines 28 to 47).\<close>

definition default_config :: "raw_config \<Rightarrow> config" where
  "default_config c =
     \<lparr> wrapperId = or_str (raw_wrapperId c) [],
       mainVideo_url = or_str (raw_mainVideo_url c) [],
       adVideo_url = or_str (raw_adVideo_url c) [],
       adVideo_skipAfter = or_num (raw_adVideo_skipAfter c) (Fin 5),
       thumbnailUrl = or_str (raw_thumbnailUrl c) (or_str (raw_mainVideo_url c) []),
       skipBackwardSeconds = or_num (raw_skipBackwardSeconds c) (Fin 10),
       skipForwardSeconds = or_num (raw_skipForwardSeconds c) (Fin 10),
       autoHideControlsDelay = or_num (raw_autoHideControlsDelay c) (Fin 3000) \<rparr>"

section \<open>The player state\<close>

text \<open>
  The elements whose \<^verbatim>\<open>hidden\<close> class the code adds, removes or tests. Every one
  of them is created unconditionally by \<^verbatim>\<open>createPlayerStructure\<close>, so the optional
  chaining (\<^verbatim>\<open>?.\<close>) and the \<^verbatim>\<open>if (this.x)\<close> guards of the handlers always
  find their element.
\<close>

datatype elem =
    ThumbnailVideo | AdVideo | MainVideo | MainVideoControls | AdOverlay | PlayOverlay
  | SkipCountdown | SettingsMenu | SpeedSubmenu | QualitySubmenu | AdLoadingSpinner
  | LoadingSpinner | CenterPlayIcon | CenterPauseIcon | VolumeIcon | MuteIcon
  | FullscreenIcon | ExitFullscreenIcon

text \<open>
  What the code reads and writes of a media element. \<^verbatim>\<open>play()\<close> and
  \<^verbatim>\<open>pause()\<close> take effect on \<open>paused\<close> at once; the notifications that follow
  are separate events.
\<close>

record media =
  currentTime :: jsnum
  duration :: jsnum
  paused :: bool
  volume :: jsnum
  playbackRate :: jsnum

text \<open>The commands issued to the media engine and the platform, in order.\<close>

datatype cmd =
    Load elem | Play elem | Pause elem | Seek elem jsnum
  | RequestFullscreen | ExitFullscreen

text \<open>The targets on which \<^verbatim>\<open>addEventListener\<close> is called.\<close>

datatype target =
    TPlayButton | TAdVideo | TSkipButton | TMainVideo | TCenterPlayButton
  | TSkipBackwardBtn | TSkipForwardBtn | TProgressBarContainer | TVolumeBtn
  | TVolumeSlider | TFullscreenBtn | TDocument | TVideoContainer | TBottomControls
  | TSettingsBtn | TSpeedMenuBtn | TQualityMenuBtn | TSpeedOption | TQualityOption
  | TSettingsContainer

text \<open>
  The fields of the instance and of the elements it owns. The six control elements
  (bottom controls, centre play button, both skip buttons, video info, settings
  container) have their \<^verbatim>\<open>style.opacity\<close> written together, to the same value, at
  every place of the code: one field, \<open>controls_opacity\<close>, stands for the six. The skip
  button's classes \<^verbatim>\<open>opacity-0\<close> and \<^verbatim>\<open>pointer-events-none\<close> are always added and
  removed together (\<open>skipButton_inert\<close>), and so are \<^verbatim>\<open>opacity-100\<close> and
  \<^verbatim>\<open>pointer-events-auto\<close> (\<open>skipButton_active\<close>). \<open>progressBar_width\<close> and
  \<open>progressHandle_left\<close> hold the percentage in effect, without its sign; the two
  time labels hold the argument given to \<^verbatim>\<open>formatTime\<close>. \<open>adTimer_text\<close> is
  \<open>None\<close> while the label still shows its initial \<^verbatim>\<open>--\<close>. The speed and quality
  labels and the highlight of the chosen option are not modelled. \<open>pending\<close> is the
  platform's set of timeouts that are armed and have not fired.
\<close>

record player =
  cfg :: config
  adDuration :: jsnum
  hideControlsTimeout :: "nat option"
  isUserInteracting :: bool
  isSettingsOpen :: bool
  pending :: "nat list"
  nextTimer :: nat
  hidden :: "elem set"
  skipButton_inert :: bool
  skipButton_active :: bool
  adTimer_text :: "jsnum option"
  skipTimer_text :: jsnum
  progressBar_width :: jsnum
  progressHandle_left :: jsnum
  currentTimeEl_seconds :: jsnum
  durationEl_seconds :: jsnum
  controls_opacity :: nat
  adVideo :: media
  mainVideo :: media
  volumeSlider_value :: jsnum
  fullscreenElement :: bool
  cmds :: "cmd list"
  listeners :: "(target \<times> string) list"

subsection \<open>Class list, media engine and timer primitives\<close>

definition add_hidden :: "elem \<Rightarrow> player \<Rightarrow> player" where
  "add_hidden e s = s\<lparr>hidden := insert e (hidden s)\<rparr>"

definition remove_hidden :: "elem \<Rightarrow> player \<Rightarrow> player" where
  "remove_hidden e s = s\<lparr>hidden := hidden s - {e}\<rparr>"

definition toggle_hidden :: "elem \<Rightarrow> player \<Rightarrow> player" where
  "toggle_hidden e s = (if e \<in> hidden s then remove_hidden e s else add_hidden e s)"

definition issue :: "cmd \<Rightarrow> player \<Rightarrow> player" where
  "issue c s = s\<lparr>cmds := cmds s @ [c]\<rparr>"

definition ad_play :: "player \<Rightarrow> player" where
  "ad_play s = issue (Play AdVideo) (s\<lparr>adVideo := (adVideo s)\<lparr>paused := False\<rparr>\<rparr>)"

definition ad_pause :: "player \<Rightarrow> player" where
  "ad_pause s = issue (Pause AdVideo) (s\<lparr>adVideo := (adVideo s)\<lparr>paused := True\<rparr>\<rparr>)"

definition main_play :: "player \<Rightarrow> player" where
  "main_play s = issue (Play MainVideo) (s\<lparr>mainVideo := (mainVideo s)\<lparr>paused := False\<rparr>\<rparr>)"

definition main_pause :: "player \<Rightarrow> player" where
  "main_pause s = issue (Pause MainVideo) (s\<lparr>mainVideo := (mainVideo s)\<lparr>paused := True\<rparr>\<rparr>)"

text \<open>
  A write to \<^verbatim>\<open>currentTime\<close>, as the media element treats it. A value that is not
  finite is rejected with a \<^verbatim>\<open>TypeError\<close> (\<open>None\<close>), which ends the handler
  that made the write. Otherwise the element seeks: once its duration is known, a
  position later than the end of the media becomes the end, and then a position before
  the start becomes the start; while the duration is still unknown the value is kept as
  the position to start from. The command recorded is the write as the player made it.
\<close>

fun js_finite :: "jsnum \<Rightarrow> bool" where
  "js_finite (Fin r) = True"
| "js_finite a = False"

definition seek_position :: "jsnum \<Rightarrow> jsnum \<Rightarrow> jsnum" where
  "seek_position d v = (if d = NaN then v else js_max (Fin 0) (js_min d v))"

definition ad_seek :: "jsnum \<Rightarrow> player \<Rightarrow> player option" where
  "ad_seek v s =
     (if js_finite v
      then Some (issue (Seek AdVideo v)
              (s\<lparr>adVideo := (adVideo s)\<lparr>currentTime := seek_position (duration (adVideo s)) v\<rparr>\<rparr>))
      else None)"

definition main_seek :: "jsnum \<Rightarrow> player \<Rightarrow> player option" where
  "main_seek v s =
     (if js_finite v
      then Some (issue (Seek MainVideo v)
              (s\<lparr>mainVideo := (mainVideo s)\<lparr>currentTime := seek_position (duration (mainVideo s)) v\<rparr>\<rparr>))
      else None)"

text \<open>
  A write to \<^verbatim>\<open>volume\<close>: the engine rejects a value outside \<open>[0, 1]\<close> with an
  exception (\<open>None\<close>).
\<close>

definition main_set_volume :: "jsnum \<Rightarrow> player \<Rightarrow> player option" where
  "main_set_volume v s =
     (if js_ge v (Fin 0) \<and> js_le v (Fin 1)
      then Some (s\<lparr>mainVideo := (mainVideo s)\<lparr>volume := v\<rparr>\<rparr>)
      else None)"

text \<open>A handler that an exception ended leaves the state as it was when it threw.\<close>

definition or_abort :: "player \<Rightarrow> player option \<Rightarrow> player" where
  "or_abort s r = (case r of None \<Rightarrow> s | Some s' \<Rightarrow> s')"

text \<open>
  An assignment of a number followed by \<^verbatim>\<open>%\<close> to \<^verbatim>\<open>style.width\<close> or
  \<^verbatim>\<open>style.left\<close>, as the element's style treats it: the string is parsed, and when
  it is not a value of the property the assignment is dropped and the previous value
  stays. \<^verbatim>\<open>NaN%\<close> and \<^verbatim>\<open>Infinity%\<close> are not percentages, and a width cannot
  be negative. The first argument is the value in effect, the second the number assigned.
\<close>

definition style_width_percent :: "jsnum \<Rightarrow> jsnum \<Rightarrow> jsnum" where
  "style_width_percent old v = (if js_finite v \<and> js_ge v (Fin 0) then v else old)"

definition style_left_percent :: "jsnum \<Rightarrow> jsnum \<Rightarrow> jsnum" where
  "style_left_percent old v = (if js_finite v then v else old)"

text \<open>
  \<^verbatim>\<open>clearTimeout(this.hideControlsTimeout)\<close>: nothing for \<^verbatim>\<open>null\<close> or for an
  identifier that is no longer pending. \<^verbatim>\<open>setTimeout\<close> returns a fresh identifier.
\<close>

definition clearTimeout :: "nat option \<Rightarrow> player \<Rightarrow> player" where
  "clearTimeout h s = (case h of None \<Rightarrow> s | Some i \<Rightarrow> s\<lparr>pending := removeAll i (pending s)\<rparr>)"

definition setTimeout :: "player \<Rightarrow> nat \<times> player" where
  "setTimeout s = (nextTimer s, s\<lparr>pending := nextTimer s # pending s, nextTimer := Suc (nextTimer s)\<rparr>)"

section \<open>The advertisement stage (\<^verbatim>\<open>bindAdEvents\<close>, \<^verbatim>\<open>skipToMainVideo\<close>)\<close>

text \<open>The click handler of the play button (lines 768 to 773).\<close>

definition playButton_click :: "player \<Rightarrow> player" where
  "playButton_click s =
     add_hidden PlayOverlay (ad_play (remove_hidden AdVideo (add_hidden ThumbnailVideo s)))"

definition adVideo_loadedmetadata :: "player \<Rightarrow> player" where
  "adVideo_loadedmetadata s = s\<lparr>adDuration := js_floor (duration (adVideo s))\<rparr>"

text \<open>The \<^verbatim>\<open>timeupdate\<close> handler of the ad (lines 781 to 801).\<close>

definition adVideo_timeupdate :: "player \<Rightarrow> player" where
  "adVideo_timeupdate s =
     (let currentTime' = js_floor (currentTime (adVideo s));
          remainingTime = js_floor (js_sub (duration (adVideo s)) (currentTime (adVideo s)));
          s1 = s\<lparr>adTimer_text := Some remainingTime\<rparr>
      in if js_ge currentTime' (adVideo_skipAfter (cfg s))
         then (add_hidden SkipCountdown s1)\<lparr>skipButton_inert := False, skipButton_active := True\<rparr>
         else s1\<lparr>skipTimer_text := js_sub (adVideo_skipAfter (cfg s)) currentTime'\<rparr>)"

text \<open>The \<^verbatim>\<open>play\<close> handler of the ad (lines 804 to 808).\<close>

definition adVideo_play :: "player \<Rightarrow> player" where
  "adVideo_play s =
     (remove_hidden SkipCountdown s)\<lparr>skipButton_inert := True, skipButton_active := False\<rparr>"

text \<open>\<^verbatim>\<open>skipToMainVideo\<close> (lines 845 to 858). The write of \<open>0\<close> cannot be rejected.\<close>

definition skipToMainVideo :: "player \<Rightarrow> player" where
  "skipToMainVideo s =
     (let s1 = ad_pause s;
          s2 = or_abort s1 (ad_seek (Fin 0) s1);
          s3 = add_hidden AdOverlay (add_hidden AdVideo s2);
          s4 = remove_hidden MainVideoControls (remove_hidden MainVideo s3)
      in main_play s4)"

definition adVideo_waiting :: "player \<Rightarrow> player" where
  "adVideo_waiting s = remove_hidden AdLoadingSpinner s"

definition adVideo_canplay :: "player \<Rightarrow> player" where
  "adVideo_canplay s = add_hidden AdLoadingSpinner s"

definition adVideo_playing :: "player \<Rightarrow> player" where
  "adVideo_playing s = add_hidden AdLoadingSpinner s"

definition adVideo_seeking :: "player \<Rightarrow> player" where
  "adVideo_seeking s = remove_hidden AdLoadingSpinner s"

definition adVideo_seeked :: "player \<Rightarrow> player" where
  "adVideo_seeked s = add_hidden AdLoadingSpinner s"

section \<open>The main video (\<^verbatim>\<open>bindMainVideoEvents\<close> and the functions it calls)\<close>

definition togglePlayPause :: "player \<Rightarrow> player" where
  "togglePlayPause s = (if paused (mainVideo s) then main_play s else main_pause s)"

definition updatePlayPauseIcons :: "bool \<Rightarrow> player \<Rightarrow> player" where
  "updatePlayPauseIcons isPlaying s =
     (if isPlaying then remove_hidden CenterPauseIcon (add_hidden CenterPlayIcon s)
      else add_hidden CenterPauseIcon (remove_hidden CenterPlayIcon s))"

text \<open>\<^verbatim>\<open>showControls\<close> (lines 886 to 906).\<close>

definition showControls :: "player \<Rightarrow> player" where
  "showControls s =
     (let s1 = s\<lparr>controls_opacity := 1\<rparr>;
          s2 = clearTimeout (hideControlsTimeout s1) s1
      in if \<not> paused (mainVideo s2) \<and> \<not> isUserInteracting s2 \<and> \<not> isSettingsOpen s2
         then (case setTimeout s2 of (i, s3) \<Rightarrow> s3\<lparr>hideControlsTimeout := Some i\<rparr>)
         else s2)"

text \<open>The function handed to \<^verbatim>\<open>setTimeout\<close> (lines 897 to 904).\<close>

definition hideControls_callback :: "player \<Rightarrow> player" where
  "hideControls_callback s = s\<lparr>controls_opacity := 0\<rparr>"

definition mainVideo_play :: "player \<Rightarrow> player" where
  "mainVideo_play s = showControls (updatePlayPauseIcons True s)"

text \<open>The \<^verbatim>\<open>pause\<close> handler (lines 918 to 927).\<close>

definition mainVideo_pause :: "player \<Rightarrow> player" where
  "mainVideo_pause s =
     (let s1 = updatePlayPauseIcons False s;
          s2 = clearTimeout (hideControlsTimeout s1) s1
      in s2\<lparr>controls_opacity := 1\<rparr>)"

text \<open>The \<^verbatim>\<open>timeupdate\<close> handler (lines 930 to 935).\<close>

definition mainVideo_timeupdate :: "player \<Rightarrow> player" where
  "mainVideo_timeupdate s =
     (let percent = js_mul (js_div (currentTime (mainVideo s)) (duration (mainVideo s))) (Fin 100)
      in s\<lparr>progressBar_width := style_width_percent (progressBar_width s) percent,
           progressHandle_left := style_left_percent (progressHandle_left s) percent,
           currentTimeEl_seconds := currentTime (mainVideo s)\<rparr>)"

definition mainVideo_loadedmetadata :: "player \<Rightarrow> player" where
  "mainVideo_loadedmetadata s = s\<lparr>durationEl_seconds := duration (mainVideo s)\<rparr>"

definition mainVideo_waiting :: "player \<Rightarrow> player" where
  "mainVideo_waiting s = remove_hidden LoadingSpinner s"

definition mainVideo_canplay :: "player \<Rightarrow> player" where
  "mainVideo_canplay s = add_hidden LoadingSpinner s"

definition mainVideo_playing :: "player \<Rightarrow> player" where
  "mainVideo_playing s = add_hidden LoadingSpinner s"

definition mainVideo_seeking :: "player \<Rightarrow> player" where
  "mainVideo_seeking s = remove_hidden LoadingSpinner s"

definition mainVideo_seeked :: "player \<Rightarrow> player" where
  "mainVideo_seeked s = add_hidden LoadingSpinner s"

section \<open>The control surface (\<^verbatim>\<open>bindControlEvents\<close>)\<close>

text \<open>Skip backward (lines 978 to 982) and skip forward (lines 985 to 989).\<close>

definition skipBackward_click :: "player \<Rightarrow> player" where
  "skipBackward_click s =
     (case main_seek (js_max (Fin 0)
             (js_sub (currentTime (mainVideo s)) (skipBackwardSeconds (cfg s)))) s of
        None \<Rightarrow> s
      | Some s1 \<Rightarrow> showControls s1)"

definition skipForward_click :: "player \<Rightarrow> player" where
  "skipForward_click s =
     (case main_seek (js_min (duration (mainVideo s))
             (js_add (currentTime (mainVideo s)) (skipForwardSeconds (cfg s)))) s of
        None \<Rightarrow> s
      | Some s1 \<Rightarrow> showControls s1)"

text \<open>
  A click on the progress track; \<open>percent\<close> is
  \<^verbatim>\<open>(e.clientX - rect.left) / rect.width\<close>.
\<close>

definition progressBar_click :: "jsnum \<Rightarrow> player \<Rightarrow> player" where
  "progressBar_click percent s =
     or_abort s (main_seek (js_mul percent (duration (mainVideo s))) s)"

definition volumeBtn_click :: "player \<Rightarrow> player" where
  "volumeBtn_click s =
     (if js_gt (volume (mainVideo s)) (Fin 0)
      then (case main_set_volume (Fin 0) s of
              None \<Rightarrow> s
            | Some s1 \<Rightarrow> remove_hidden MuteIcon (add_hidden VolumeIcon
                           (s1\<lparr>volumeSlider_value := Fin 0\<rparr>)))
      else (case main_set_volume (Fin 1) s of
              None \<Rightarrow> s
            | Some s1 \<Rightarrow> add_hidden MuteIcon (remove_hidden VolumeIcon
                           (s1\<lparr>volumeSlider_value := Fin 100\<rparr>))))"

text \<open>The slider's \<^verbatim>\<open>input\<close> handler; \<open>v\<close> is \<^verbatim>\<open>e.target.value\<close>.\<close>

definition volumeSlider_input :: "jsnum \<Rightarrow> player \<Rightarrow> player" where
  "volumeSlider_input v s =
     (let volume' = js_div v (Fin 100)
      in case main_set_volume volume' (s\<lparr>volumeSlider_value := v\<rparr>) of
           None \<Rightarrow> s\<lparr>volumeSlider_value := v\<rparr>
         | Some s1 \<Rightarrow>
             (if volume' = Fin 0 then remove_hidden MuteIcon (add_hidden VolumeIcon s1)
              else add_hidden MuteIcon (remove_hidden VolumeIcon s1)))"

definition fullscreenBtn_click :: "player \<Rightarrow> player" where
  "fullscreenBtn_click s =
     (if \<not> fullscreenElement s then issue RequestFullscreen s else issue ExitFullscreen s)"

definition document_fullscreenchange :: "player \<Rightarrow> player" where
  "document_fullscreenchange s =
     (if fullscreenElement s then remove_hidden ExitFullscreenIcon (add_hidden FullscreenIcon s)
      else add_hidden ExitFullscreenIcon (remove_hidden FullscreenIcon s))"

text \<open>\<^verbatim>\<open>mousemove\<close> and \<^verbatim>\<open>mouseenter\<close> on the container run the same body.\<close>

definition videoContainer_mousemove :: "player \<Rightarrow> player" where
  "videoContainer_mousemove s =
     (if MainVideoControls \<notin> hidden s then showControls s else s)"

definition videoContainer_mouseleave :: "player \<Rightarrow> player" where
  "videoContainer_mouseleave s =
     (if \<not> paused (mainVideo s) \<and> MainVideoControls \<notin> hidden s \<and> \<not> isSettingsOpen s
      then s\<lparr>controls_opacity := 0\<rparr> else s)"

definition bottomControls_mouseenter :: "player \<Rightarrow> player" where
  "bottomControls_mouseenter s =
     (let s1 = s\<lparr>isUserInteracting := True\<rparr> in clearTimeout (hideControlsTimeout s1) s1)"

definition bottomControls_mouseleave :: "player \<Rightarrow> player" where
  "bottomControls_mouseleave s = showControls (s\<lparr>isUserInteracting := False\<rparr>)"

section \<open>Listeners and their dispatch\<close>

text \<open>
  A listener runs when its event reaches its target and it is registered there. A click
  whose handler does not call \<^verbatim>\<open>stopPropagation\<close> goes on to the document's click
  listener, with a target outside the settings container.
\<close>

definition registered :: "target \<Rightarrow> string \<Rightarrow> player \<Rightarrow> bool" where
  "registered t ty s = ((t, ty) \<in> set (listeners s))"

definition dispatch :: "target \<Rightarrow> string \<Rightarrow> (player \<Rightarrow> player) \<Rightarrow> player \<Rightarrow> player" where
  "dispatch t ty h s = (if registered t ty s then h s else s)"

text \<open>
  The document's click listener (lines 1153 to 1160); \<open>inside\<close> is
  \<^verbatim>\<open>this.settingsContainer.contains(e.target)\<close>.
\<close>

definition document_click :: "bool \<Rightarrow> player \<Rightarrow> player" where
  "document_click inside s =
     (if isSettingsOpen s \<and> \<not> inside
      then (add_hidden QualitySubmenu (add_hidden SpeedSubmenu (add_hidden SettingsMenu s)))
             \<lparr>isSettingsOpen := False\<rparr>
      else s)"

definition click_bubbles :: "player \<Rightarrow> player" where
  "click_bubbles s = dispatch TDocument ''click'' (document_click False) s"

section \<open>The settings menu (\<^verbatim>\<open>bindSettingsEvents\<close>)\<close>

definition settingsBtn_click :: "player \<Rightarrow> player" where
  "settingsBtn_click s =
     (let s1 = toggle_hidden SettingsMenu (s\<lparr>isSettingsOpen := \<not> isSettingsOpen s\<rparr>)
      in if isSettingsOpen s1 then add_hidden QualitySubmenu (add_hidden SpeedSubmenu s1)
         else s1)"

definition speedMenuBtn_click :: "player \<Rightarrow> player" where
  "speedMenuBtn_click s = add_hidden QualitySubmenu (toggle_hidden SpeedSubmenu s)"

definition qualityMenuBtn_click :: "player \<Rightarrow> player" where
  "qualityMenuBtn_click s = add_hidden SpeedSubmenu (toggle_hidden QualitySubmenu s)"

text \<open>A click on a speed option; \<open>speed\<close> is \<^verbatim>\<open>parseFloat(option.dataset.speed)\<close>.\<close>

definition speedOption_click :: "jsnum \<Rightarrow> player \<Rightarrow> player" where
  "speedOption_click speed s =
     (add_hidden SettingsMenu (add_hidden SpeedSubmenu
        (s\<lparr>mainVideo := (mainVideo s)\<lparr>playbackRate := speed\<rparr>\<rparr>)))\<lparr>isSettingsOpen := False\<rparr>"

definition qualityOption_click :: "player \<Rightarrow> player" where
  "qualityOption_click s =
     (add_hidden SettingsMenu (add_hidden QualitySubmenu s))\<lparr>isSettingsOpen := False\<rparr>"

definition settingsContainer_mouseenter :: "player \<Rightarrow> player" where
  "settingsContainer_mouseenter s =
     (let s1 = s\<lparr>isUserInteracting := True\<rparr> in clearTimeout (hideControlsTimeout s1) s1)"

definition settingsContainer_mouseleave :: "player \<Rightarrow> player" where
  "settingsContainer_mouseleave s =
     (if \<not> isSettingsOpen s then showControls (s\<lparr>isUserInteracting := False\<rparr>) else s)"

section \<open>Keyboard shortcuts (\<^verbatim>\<open>bindKeyboardEvents\<close>)\<close>

text \<open>
  The document's \<^verbatim>\<open>keydown\<close> listener (lines 1179 to 1217). The keys \<^verbatim>\<open>f\<close> and
  \<^verbatim>\<open>m\<close> click a button from the program: its click listener runs, then the
  document's.
\<close>

definition document_keydown :: "string \<Rightarrow> player \<Rightarrow> player" where
  "document_keydown key s =
     (if MainVideoControls \<in> hidden s then s
      else if key = '' '' \<or> key = ''k'' then togglePlayPause s
      else if key = ''ArrowLeft'' then
        (case main_seek (js_max (Fin 0)
                (js_sub (currentTime (mainVideo s)) (skipBackwardSeconds (cfg s)))) s of
           None \<Rightarrow> s
         | Some s1 \<Rightarrow> showControls s1)
      else if key = ''ArrowRight'' then
        (case main_seek (js_min (duration (mainVideo s))
                (js_add (currentTime (mainVideo s)) (skipForwardSeconds (cfg s)))) s of
           None \<Rightarrow> s
         | Some s1 \<Rightarrow> showControls s1)
      else if key = ''ArrowUp'' then
        (case main_set_volume (js_min (Fin 1) (js_add (volume (mainVideo s)) (Fin (1 / 10)))) s of
           None \<Rightarrow> s
         | Some s1 \<Rightarrow> s1\<lparr>volumeSlider_value := js_mul (volume (mainVideo s1)) (Fin 100)\<rparr>)
      else if key = ''ArrowDown'' then
        (case main_set_volume (js_max (Fin 0) (js_sub (volume (mainVideo s)) (Fin (1 / 10)))) s of
           None \<Rightarrow> s
         | Some s1 \<Rightarrow> s1\<lparr>volumeSlider_value := js_mul (volume (mainVideo s1)) (Fin 100)\<rparr>)
      else if key = ''f'' then click_bubbles (dispatch TFullscreenBtn ''click'' fullscreenBtn_click s)
      else if key = ''m'' then click_bubbles (dispatch TVolumeBtn ''click'' volumeBtn_click s)
      else s)"

section \<open>Public methods\<close>

definition play :: "player \<Rightarrow> player" where
  "play s = main_play s"

definition pause :: "player \<Rightarrow> player" where
  "pause s = main_pause s"

definition setVolume :: "jsnum \<Rightarrow> player \<Rightarrow> player" where
  "setVolume v s =
     (case main_set_volume (js_max (Fin 0) (js_min (Fin 1) v)) s of
        None \<Rightarrow> s
      | Some s1 \<Rightarrow> s1\<lparr>volumeSlider_value := js_mul (volume (mainVideo s1)) (Fin 100)\<rparr>)"

text \<open>\<^verbatim>\<open>seekTo\<close> (lines 1251 to 1255).\<close>

definition seekTo :: "jsnum \<Rightarrow> player \<Rightarrow> player" where
  "seekTo seconds s = or_abort s (main_seek seconds s)"

definition getCurrentTime :: "player \<Rightarrow> jsnum" where
  "getCurrentTime s = or_num (Some (currentTime (mainVideo s))) (Fin 0)"

definition getDuration :: "player \<Rightarrow> jsnum" where
  "getDuration s = or_num (Some (duration (mainVideo s))) (Fin 0)"

text \<open>\<^verbatim>\<open>destroy\<close> (lines 1274 to 1277): one statement and a comment.\<close>

definition destroy :: "player \<Rightarrow> player" where
  "destroy s = clearTimeout (hideControlsTimeout s) s"

section \<open>Construction (\<^verbatim>\<open>constructor\<close>, \<^verbatim>\<open>init\<close>)\<close>

datatype error = MissingWrapperId | WrapperNotFound string

text \<open>
  The instance as the constructor and \<^verbatim>\<open>createPlayerStructure\<close> leave it: the
  \<^verbatim>\<open>hidden\<close> classes are those of the \<^verbatim>\<open>className\<close> strings, the control
  elements start with the class \<^verbatim>\<open>opacity-0\<close>, the slider at \<open>100\<close>, the skip
  button inert. A media element starts paused at position \<open>0\<close>, with no duration yet.
\<close>

definition new_media :: media where
  "new_media = \<lparr> currentTime = Fin 0, duration = NaN, paused = True,
                 volume = Fin 1, playbackRate = Fin 1 \<rparr>"

definition createPlayerStructure :: "config \<Rightarrow> player" where
  "createPlayerStructure c =
     \<lparr> cfg = c, adDuration = Fin 0, hideControlsTimeout = None,
       isUserInteracting = False, isSettingsOpen = False,
       pending = [], nextTimer = 0,
       hidden = {AdVideo, MainVideo, MainVideoControls, SettingsMenu, SpeedSubmenu,
                 QualitySubmenu, LoadingSpinner, CenterPauseIcon, MuteIcon,
                 ExitFullscreenIcon, AdLoadingSpinner},
       skipButton_inert = True, skipButton_active = False,
       adTimer_text = None, skipTimer_text = Fin 5,
       progressBar_width = Fin 0, progressHandle_left = Fin 0,
       currentTimeEl_seconds = Fin 0, durationEl_seconds = Fin 0,
       controls_opacity = 0,
       adVideo = new_media, mainVideo = new_media,
       volumeSlider_value = Fin 100, fullscreenElement = False,
       cmds = [], listeners = [] \<rparr>"

text \<open>\<^verbatim>\<open>setVideoSources\<close>: the ad is loaded only when it has a URL.\<close>

definition setVideoSources :: "player \<Rightarrow> player" where
  "setVideoSources s =
     (let s1 = issue (Load ThumbnailVideo) s;
          s2 = (if adVideo_url (cfg s1) \<noteq> [] then issue (Load AdVideo) s1 else s1)
      in issue (Load MainVideo) s2)"

definition setVideoInfo :: "player \<Rightarrow> player" where
  "setVideoInfo s = s\<lparr>skipTimer_text := adVideo_skipAfter (cfg s)\<rparr>"

definition addEventListeners :: "(target \<times> string) list \<Rightarrow> player \<Rightarrow> player" where
  "addEventListeners ls s = s\<lparr>listeners := listeners s @ ls\<rparr>"

definition bindAdEvents :: "player \<Rightarrow> player" where
  "bindAdEvents = addEventListeners
     [(TPlayButton, ''click''), (TAdVideo, ''loadedmetadata''), (TAdVideo, ''timeupdate''),
      (TAdVideo, ''play''), (TSkipButton, ''click''), (TAdVideo, ''ended''),
      (TAdVideo, ''waiting''), (TAdVideo, ''canplay''), (TAdVideo, ''playing''),
      (TAdVideo, ''seeking''), (TAdVideo, ''seeked''), (TAdVideo, ''contextmenu'')]"

definition bindMainVideoEvents :: "player \<Rightarrow> player" where
  "bindMainVideoEvents = addEventListeners
     [(TMainVideo, ''play''), (TMainVideo, ''pause''), (TMainVideo, ''timeupdate''),
      (TMainVideo, ''loadedmetadata''), (TMainVideo, ''waiting''), (TMainVideo, ''canplay''),
      (TMainVideo, ''playing''), (TMainVideo, ''seeking''), (TMainVideo, ''seeked''),
      (TMainVideo, ''click''), (TMainVideo, ''contextmenu'')]"

definition bindControlEvents :: "player \<Rightarrow> player" where
  "bindControlEvents = addEventListeners
     [(TCenterPlayButton, ''click''), (TSkipBackwardBtn, ''click''),
      (TSkipForwardBtn, ''click''), (TProgressBarContainer, ''click''),
      (TVolumeBtn, ''click''), (TVolumeSlider, ''input''), (TFullscreenBtn, ''click''),
      (TDocument, ''fullscreenchange''), (TVideoContainer, ''mousemove''),
      (TVideoContainer, ''mouseenter''), (TVideoContainer, ''mouseleave''),
      (TBottomControls, ''mouseenter''), (TBottomControls, ''mouseleave'')]"

definition bindSettingsEvents :: "player \<Rightarrow> player" where
  "bindSettingsEvents = addEventListeners
     [(TSettingsBtn, ''click''), (TSpeedMenuBtn, ''click''), (TQualityMenuBtn, ''click''),
      (TSpeedOption, ''click''), (TQualityOption, ''click''), (TDocument, ''click''),
      (TSettingsContainer, ''mouseenter''), (TSettingsContainer, ''mouseleave'')]"

definition bindKeyboardEvents :: "player \<Rightarrow> player" where
  "bindKeyboardEvents = addEventListeners [(TDocument, ''keydown'')]"

definition init :: "config \<Rightarrow> player" where
  "init c =
     bindKeyboardEvents (bindSettingsEvents (bindControlEvents (bindMainVideoEvents
       (bindAdEvents (setVideoInfo (setVideoSources (createPlayerStructure c)))))))"

text \<open>
  The constructor; \<open>exists\<close> tells whether \<^verbatim>\<open>document.getElementById\<close> finds the
  wrapper. \<open>None\<close> is a \<^verbatim>\<open>null\<close> or absent configuration.
\<close>

definition new_VideoPlayer :: "(string \<Rightarrow> bool) \<Rightarrow> raw_config option \<Rightarrow> error + player" where
  "new_VideoPlayer exists config =
     (case config of
        None \<Rightarrow> Inl MissingWrapperId
      | Some c \<Rightarrow>
          (if raw_wrapperId c = None \<or> raw_wrapperId c = Some [] then Inl MissingWrapperId
           else if \<not> exists (wrapperId (default_config c))
                then Inl (WrapperNotFound (wrapperId (default_config c)))
                else Inr (init (default_config c))))"

section \<open>Events\<close>

text \<open>
  Everything that can make code of the instance run: a notification of one of the two
  media elements, a user's activation of a control, a pointer movement, a key, the
  expiry of a timeout, and a call of a public method by the host page. A position or
  duration notification carries the value the engine has reached; \<open>FullscreenChange\<close>
  carries whether an element is now full screen; \<open>DocumentClick\<close> is a click elsewhere
  in the page, inside the settings container or not.
\<close>

datatype ad_event =
    AdLoadedmetadata jsnum | AdTimeupdate jsnum | AdPlay | AdEnded
  | AdWaiting | AdCanplay | AdPlaying | AdSeeking | AdSeeked

datatype main_event =
    MainPlay | MainPause | MainTimeupdate jsnum | MainLoadedmetadata jsnum
  | MainWaiting | MainCanplay | MainPlaying | MainSeeking | MainSeeked

datatype click =
    PlayButtonClick | SkipButtonClick | MainClick | CenterPlayClick
  | SkipBackwardClick | SkipForwardClick | ProgressClick jsnum | VolumeBtnClick
  | FullscreenBtnClick | SettingsBtnClick | SpeedMenuBtnClick | QualityMenuBtnClick
  | SpeedOptionClick jsnum | QualityOptionClick | DocumentClick bool

datatype pointer =
    ContainerMousemove | ContainerMouseenter | ContainerMouseleave
  | BottomMouseenter | BottomMouseleave | SettingsMouseenter | SettingsMouseleave

datatype call = CallPlay | CallPause | CallSetVolume jsnum | CallSeekTo jsnum | CallDestroy

datatype event =
    Ad ad_event | Main main_event | Click click | Pointer pointer
  | VolumeSliderInput jsnum | FullscreenChange bool | KeyDown string | TimerFire nat
  | Call call

text \<open>
  An element under the class \<^verbatim>\<open>hidden\<close> (\<^verbatim>\<open>display: none\<close>), or inside an element
  under it, is not rendered: it takes no pointer event and no keyboard focus, so a user
  cannot activate it. A timeout fires only while it is pending. Opacity and
  \<^verbatim>\<open>pointer-events\<close> do not stop an activation from the keyboard and are not part
  of the condition.
\<close>

primrec click_deliverable :: "player \<Rightarrow> click \<Rightarrow> bool" where
  "click_deliverable s PlayButtonClick = (PlayOverlay \<notin> hidden s)"
| "click_deliverable s SkipButtonClick = (AdOverlay \<notin> hidden s)"
| "click_deliverable s MainClick = (MainVideo \<notin> hidden s)"
| "click_deliverable s CenterPlayClick = (MainVideoControls \<notin> hidden s)"
| "click_deliverable s SkipBackwardClick = (MainVideoControls \<notin> hidden s)"
| "click_deliverable s SkipForwardClick = (MainVideoControls \<notin> hidden s)"
| "click_deliverable s (ProgressClick p) = (MainVideoControls \<notin> hidden s)"
| "click_deliverable s VolumeBtnClick = (MainVideoControls \<notin> hidden s)"
| "click_deliverable s FullscreenBtnClick = (MainVideoControls \<notin> hidden s)"
| "click_deliverable s SettingsBtnClick = (MainVideoControls \<notin> hidden s)"
| "click_deliverable s SpeedMenuBtnClick =
     (MainVideoControls \<notin> hidden s \<and> SettingsMenu \<notin> hidden s)"
| "click_deliverable s QualityMenuBtnClick =
     (MainVideoControls \<notin> hidden s \<and> SettingsMenu \<notin> hidden s)"
| "click_deliverable s (SpeedOptionClick v) =
     (MainVideoControls \<notin> hidden s \<and> SettingsMenu \<notin> hidden s \<and> SpeedSubmenu \<notin> hidden s)"
| "click_deliverable s QualityOptionClick =
     (MainVideoControls \<notin> hidden s \<and> SettingsMenu \<notin> hidden s \<and> QualitySubmenu \<notin> hidden s)"
| "click_deliverable s (DocumentClick inside) = True"

primrec pointer_deliverable :: "player \<Rightarrow> pointer \<Rightarrow> bool" where
  "pointer_deliverable s ContainerMousemove = True"
| "pointer_deliverable s ContainerMouseenter = True"
| "pointer_deliverable s ContainerMouseleave = True"
| "pointer_deliverable s BottomMouseenter = (MainVideoControls \<notin> hidden s)"
| "pointer_deliverable s BottomMouseleave = (MainVideoControls \<notin> hidden s)"
| "pointer_deliverable s SettingsMouseenter = (MainVideoControls \<notin> hidden s)"
| "pointer_deliverable s SettingsMouseleave = (MainVideoControls \<notin> hidden s)"

primrec deliverable :: "player \<Rightarrow> event \<Rightarrow> bool" where
  "deliverable s (Ad e) = True"
| "deliverable s (Main e) = True"
| "deliverable s (Click c) = click_deliverable s c"
| "deliverable s (Pointer p) = pointer_deliverable s p"
| "deliverable s (VolumeSliderInput v) = (MainVideoControls \<notin> hidden s)"
| "deliverable s (FullscreenChange b) = True"
| "deliverable s (KeyDown key) = True"
| "deliverable s (TimerFire i) = (i \<in> set (pending s))"
| "deliverable s (Call c) = True"

text \<open>What one event runs. The engine's new reading is stored before the listener runs.\<close>

primrec handle_ad :: "player \<Rightarrow> ad_event \<Rightarrow> player" where
  "handle_ad s (AdLoadedmetadata d) =
     dispatch TAdVideo ''loadedmetadata'' adVideo_loadedmetadata
       (s\<lparr>adVideo := (adVideo s)\<lparr>duration := d\<rparr>\<rparr>)"
| "handle_ad s (AdTimeupdate p) =
     dispatch TAdVideo ''timeupdate'' adVideo_timeupdate
       (s\<lparr>adVideo := (adVideo s)\<lparr>currentTime := p\<rparr>\<rparr>)"
| "handle_ad s AdPlay = dispatch TAdVideo ''play'' adVideo_play s"
| "handle_ad s AdEnded = dispatch TAdVideo ''ended'' skipToMainVideo s"
| "handle_ad s AdWaiting = dispatch TAdVideo ''waiting'' adVideo_waiting s"
| "handle_ad s AdCanplay = dispatch TAdVideo ''canplay'' adVideo_canplay s"
| "handle_ad s AdPlaying = dispatch TAdVideo ''playing'' adVideo_playing s"
| "handle_ad s AdSeeking = dispatch TAdVideo ''seeking'' adVideo_seeking s"
| "handle_ad s AdSeeked = dispatch TAdVideo ''seeked'' adVideo_seeked s"

primrec handle_main :: "player \<Rightarrow> main_event \<Rightarrow> player" where
  "handle_main s MainPlay = dispatch TMainVideo ''play'' mainVideo_play s"
| "handle_main s MainPause = dispatch TMainVideo ''pause'' mainVideo_pause s"
| "handle_main s (MainTimeupdate p) =
     dispatch TMainVideo ''timeupdate'' mainVideo_timeupdate
       (s\<lparr>mainVideo := (mainVideo s)\<lparr>currentTime := p\<rparr>\<rparr>)"
| "handle_main s (MainLoadedmetadata d) =
     dispatch TMainVideo ''loadedmetadata'' mainVideo_loadedmetadata
       (s\<lparr>mainVideo := (mainVideo s)\<lparr>duration := d\<rparr>\<rparr>)"
| "handle_main s MainWaiting = dispatch TMainVideo ''waiting'' mainVideo_waiting s"
| "handle_main s MainCanplay = dispatch TMainVideo ''canplay'' mainVideo_canplay s"
| "handle_main s MainPlaying = dispatch TMainVideo ''playing'' mainVideo_playing s"
| "handle_main s MainSeeking = dispatch TMainVideo ''seeking'' mainVideo_seeking s"
| "handle_main s MainSeeked = dispatch TMainVideo ''seeked'' mainVideo_seeked s"

primrec handle_click :: "player \<Rightarrow> click \<Rightarrow> player" where
  "handle_click s PlayButtonClick =
     click_bubbles (dispatch TPlayButton ''click'' playButton_click s)"
| "handle_click s SkipButtonClick =
     click_bubbles (dispatch TSkipButton ''click'' skipToMainVideo s)"
| "handle_click s MainClick = click_bubbles (dispatch TMainVideo ''click'' togglePlayPause s)"
| "handle_click s CenterPlayClick = dispatch TCenterPlayButton ''click'' togglePlayPause s"
| "handle_click s SkipBackwardClick = dispatch TSkipBackwardBtn ''click'' skipBackward_click s"
| "handle_click s SkipForwardClick = dispatch TSkipForwardBtn ''click'' skipForward_click s"
| "handle_click s (ProgressClick p) =
     click_bubbles (dispatch TProgressBarContainer ''click'' (progressBar_click p) s)"
| "handle_click s VolumeBtnClick =
     click_bubbles (dispatch TVolumeBtn ''click'' volumeBtn_click s)"
| "handle_click s FullscreenBtnClick =
     click_bubbles (dispatch TFullscreenBtn ''click'' fullscreenBtn_click s)"
| "handle_click s SettingsBtnClick = dispatch TSettingsBtn ''click'' settingsBtn_click s"
| "handle_click s SpeedMenuBtnClick = dispatch TSpeedMenuBtn ''click'' speedMenuBtn_click s"
| "handle_click s QualityMenuBtnClick =
     dispatch TQualityMenuBtn ''click'' qualityMenuBtn_click s"
| "handle_click s (SpeedOptionClick v) =
     dispatch TSpeedOption ''click'' (speedOption_click v) s"
| "handle_click s QualityOptionClick = dispatch TQualityOption ''click'' qualityOption_click s"
| "handle_click s (DocumentClick inside) =
     dispatch TDocument ''click'' (document_click inside) s"

primrec handle_pointer :: "player \<Rightarrow> pointer \<Rightarrow> player" where
  "handle_pointer s ContainerMousemove =
     dispatch TVideoContainer ''mousemove'' videoContainer_mousemove s"
| "handle_pointer s ContainerMouseenter =
     dispatch TVideoContainer ''mouseenter'' videoContainer_mousemove s"
| "handle_pointer s ContainerMouseleave =
     dispatch TVideoContainer ''mouseleave'' videoContainer_mouseleave s"
| "handle_pointer s BottomMouseenter =
     dispatch TBottomControls ''mouseenter'' bottomControls_mouseenter s"
| "handle_pointer s BottomMouseleave =
     dispatch TBottomControls ''mouseleave'' bottomControls_mouseleave s"
| "handle_pointer s SettingsMouseenter =
     dispatch TSettingsContainer ''mouseenter'' settingsContainer_mouseenter s"
| "handle_pointer s SettingsMouseleave =
     dispatch TSettingsContainer ''mouseleave'' settingsContainer_mouseleave s"

primrec handle_call :: "player \<Rightarrow> call \<Rightarrow> player" where
  "handle_call s CallPlay = play s"
| "handle_call s CallPause = pause s"
| "handle_call s (CallSetVolume v) = setVolume v s"
| "handle_call s (CallSeekTo v) = seekTo v s"
| "handle_call s CallDestroy = destroy s"

primrec handle :: "player \<Rightarrow> event \<Rightarrow> player" where
  "handle s (Ad e) = handle_ad s e"
| "handle s (Main e) = handle_main s e"
| "handle s (Click c) = handle_click s c"
| "handle s (Pointer p) = handle_pointer s p"
| "handle s (VolumeSliderInput v) = dispatch TVolumeSlider ''input'' (volumeSlider_input v) s"
| "handle s (FullscreenChange b) =
     dispatch TDocument ''fullscreenchange'' document_fullscreenchange
       (s\<lparr>fullscreenElement := b\<rparr>)"
| "handle s (KeyDown key) = dispatch TDocument ''keydown'' (document_keydown key) s"
| "handle s (TimerFire i) = hideControls_callback (s\<lparr>pending := removeAll i (pending s)\<rparr>)"
| "handle s (Call c) = handle_call s c"

definition step :: "player \<Rightarrow> event \<Rightarrow> player" where
  "step s e = (if deliverable s e then handle s e else s)"

definition run :: "player \<Rightarrow> event list \<Rightarrow> player" where
  "run s es = foldl step s es"

section \<open>Notions used by the properties\<close>

text \<open>The clamp of the specification, on finite numbers.\<close>

definition clamp :: "rat \<Rightarrow> rat \<Rightarrow> rat \<Rightarrow> rat" where
  "clamp x lo hi = max lo (min hi x)"

text \<open>
  The stage that is showing, read off the elements: in each stage the elements of that
  stage are rendered and those of the other two are not. The ad overlay is rendered
  from construction on (over the thumbnail) until \<^verbatim>\<open>skipToMainVideo\<close> hides it.
\<close>

datatype stage = Thumbnail | AdStage | MainStage

definition stage :: "player \<Rightarrow> stage option" where
  "stage s =
     (if ThumbnailVideo \<notin> hidden s \<and> PlayOverlay \<notin> hidden s \<and> AdVideo \<in> hidden s
         \<and> MainVideo \<in> hidden s \<and> MainVideoControls \<in> hidden s then Some Thumbnail
      else if ThumbnailVideo \<in> hidden s \<and> PlayOverlay \<in> hidden s \<and> AdVideo \<notin> hidden s
         \<and> AdOverlay \<notin> hidden s \<and> MainVideo \<in> hidden s \<and> MainVideoControls \<in> hidden s
      then Some AdStage
      else if ThumbnailVideo \<in> hidden s \<and> PlayOverlay \<in> hidden s \<and> AdVideo \<in> hidden s
         \<and> AdOverlay \<in> hidden s \<and> MainVideo \<notin> hidden s \<and> MainVideoControls \<notin> hidden s
      then Some MainStage
      else None)"

text \<open>A run of position notifications of the ad, at the given positions.\<close>

definition ad_positions :: "player \<Rightarrow> rat list \<Rightarrow> player" where
  "ad_positions s ps = run s (map (\<lambda>p. Ad (AdTimeupdate (Fin p))) ps)"

text \<open>The commands a run has issued beyond those issued before it.\<close>

definition issued_since :: "player \<Rightarrow> player \<Rightarrow> cmd list" where
  "issued_since s s' = drop (length (cmds s)) (cmds s')"

text \<open>
  The timer discipline: the only timeout that can be pending is the one whose identifier
  \<^verbatim>\<open>hideControlsTimeout\<close> holds, it is pending once at most, and none is pending
  while the pointer is over the control surface.
\<close>

definition timer_inv :: "player \<Rightarrow> bool" where
  "timer_inv s =
     ((\<forall>i \<in> set (pending s). hideControlsTimeout s = Some i)
      \<and> distinct (pending s)
      \<and> (isUserInteracting s \<longrightarrow> pending s = []))"

text \<open>
  The commands that can be issued in the main stage: any command to the main video or to
  the platform's full-screen mode, and, to the ad, only the pause and the rewind to zero
  that \<^verbatim>\<open>skipToMainVideo\<close> makes. No play and no load goes to the ad, and nothing
  goes to the thumbnail.
\<close>

fun main_stage_cmd :: "cmd \<Rightarrow> bool" where
  "main_stage_cmd (Play e) = (e = MainVideo)"
| "main_stage_cmd (Pause e) = (e = MainVideo \<or> e = AdVideo)"
| "main_stage_cmd (Seek e v) = (e = MainVideo \<or> (e = AdVideo \<and> v = Fin 0))"
| "main_stage_cmd (Load e) = False"
| "main_stage_cmd RequestFullscreen = True"
| "main_stage_cmd ExitFullscreen = True"

text \<open>
  Between two states, nothing that decides the stage has changed and only commands of the
  main stage have been issued.
\<close>

definition no_stage_change :: "player \<Rightarrow> player \<Rightarrow> bool" where
  "no_stage_change s s' =
     ((\<forall>x \<in> {ThumbnailVideo, PlayOverlay, AdVideo, AdOverlay, MainVideo, MainVideoControls}.
          (x \<in> hidden s') = (x \<in> hidden s))
      \<and> cmds s' = cmds s @ issued_since s s'
      \<and> (\<forall>c \<in> set (issued_since s s'). main_stage_cmd c))"

section \<open>Concrete players\<close>

definition example_config :: raw_config where
  "example_config =
     \<lparr> raw_wrapperId = Some ''player'', raw_mainVideo_url = Some ''main.mp4'',
       raw_adVideo_url = Some ''ad.mp4'', raw_adVideo_skipAfter = Some (Fin 5),
       raw_thumbnailUrl = None, raw_skipBackwardSeconds = None,
       raw_skipForwardSeconds = None, raw_autoHideControlsDelay = None \<rparr>"

text \<open>The minimal configuration: a main video and no ad.\<close>

definition no_ad_config :: raw_config where
  "no_ad_config =
     \<lparr> raw_wrapperId = Some ''player'', raw_mainVideo_url = Some ''main.mp4'',
       raw_adVideo_url = None, raw_adVideo_skipAfter = None,
       raw_thumbnailUrl = None, raw_skipBackwardSeconds = None,
       raw_skipForwardSeconds = None, raw_autoHideControlsDelay = None \<rparr>"

definition zero_config :: raw_config where
  "zero_config =
     \<lparr> raw_wrapperId = Some ''player'', raw_mainVideo_url = Some ''main.mp4'',
       raw_adVideo_url = Some ''ad.mp4'', raw_adVideo_skipAfter = Some (Fin 0),
       raw_thumbnailUrl = None, raw_skipBackwardSeconds = None,
       raw_skipForwardSeconds = None, raw_autoHideControlsDelay = Some (Fin 0) \<rparr>"

definition example_player :: player where
  "example_player = init (default_config example_config)"

text \<open>The example player after the play button and the end of the ad.\<close>

definition main_stage_player :: player where
  "main_stage_player = run example_player [Click PlayButtonClick, Ad AdEnded]"

text \<open>The same player once the metadata of the main video (100 seconds) has arrived.\<close>

definition loaded_player :: player where
  "loaded_player = run main_stage_player [Main (MainLoadedmetadata (Fin 100))]"

text \<open>The player of before while it plays, with its hide timer armed by the \<^verbatim>\<open>play\<close> notification.\<close>

definition armed_player :: player where
  "armed_player = run main_stage_player [Main MainPlay]"

text \<open>
  The example player in the ad stage, one second into the ad: the play button has been
  activated, the ad has reported that it plays and then its position.
\<close>

definition ad_stage_player :: player where
  "ad_stage_player =
     run example_player [Click PlayButtonClick, Ad AdPlay, Ad (AdTimeupdate (Fin 1))]"

section \<open>Unfolding rules\<close>

lemma seek_position_zero: "seek_position d (Fin 0) = Fin 0"
  by (cases d) (simp_all add: seek_position_def js_max_def js_min_def)

lemma seek_position_unknown: "seek_position NaN v = v"
  by (simp add: seek_position_def)

lemma seek_position_known: "seek_position (Fin d) (Fin v) = Fin (clamp v 0 d)"
  by (simp add: seek_position_def js_max_def js_min_def clamp_def min_def max_def)

lemmas prim_defs = add_hidden_def remove_hidden_def toggle_hidden_def issue_def ad_play_def
  ad_pause_def main_play_def main_pause_def ad_seek_def main_seek_def seek_position_zero
  seek_position_unknown main_set_volume_def or_abort_def clearTimeout_def setTimeout_def

lemmas init_defs = init_def bindKeyboardEvents_def bindSettingsEvents_def bindControlEvents_def
  bindMainVideoEvents_def bindAdEvents_def addEventListeners_def setVideoInfo_def
  setVideoSources_def createPlayerStructure_def new_media_def default_config_def or_num_def
  or_str_def

lemmas example_defs = example_player_def example_config_def main_stage_player_def

lemmas run_defs = run_def step_def dispatch_def registered_def click_bubbles_def
  document_click_def

section \<open>Configuration defaults\<close>

text \<open>
  Claim C10. The defaults are taken with \<^verbatim>\<open>||\<close>, so a configured \<open>0\<close> cannot be told
  from an absent value. For every configuration whose \<^verbatim>\<open>adVideo.skipAfter\<close> is \<open>0\<close>
  the stored threshold is the default of 5 seconds, the stored configuration is the one
  obtained without the field, and the skip button is not available at once: a position
  notification of the ad at position \<open>0\<close> leaves it with the classes that hide it and
  take it out of pointer events. For every configuration
  whose \<^verbatim>\<open>autoHideControlsDelay\<close> is \<open>0\<close> the stored delay is the default of 3000
  milliseconds, again as without the field.
\<close>

theorem zero_config_values_fall_back_to_defaults:
  "(raw_adVideo_skipAfter c = Some (Fin 0) \<longrightarrow>
      adVideo_skipAfter (default_config c) = Fin 5
      \<and> default_config c = default_config (c\<lparr>raw_adVideo_skipAfter := None\<rparr>)
      \<and> skipButton_inert (step (init (default_config c)) (Ad (AdTimeupdate (Fin 0))))
      \<and> \<not> skipButton_active (step (init (default_config c)) (Ad (AdTimeupdate (Fin 0)))))
   \<and> (raw_autoHideControlsDelay c = Some (Fin 0) \<longrightarrow>
      autoHideControlsDelay (default_config c) = Fin 3000
      \<and> default_config c = default_config (c\<lparr>raw_autoHideControlsDelay := None\<rparr>))"
  by (simp add: init_defs prim_defs step_def dispatch_def registered_def
      adVideo_timeupdate_def js_ge_def Let_def)

theorem zero_config_values_fall_back_to_defaults_witness:
  "raw_adVideo_skipAfter zero_config = Some (Fin 0)
   \<and> raw_autoHideControlsDelay zero_config = Some (Fin 0)
   \<and> adVideo_skipAfter (default_config zero_config) = Fin 5
   \<and> autoHideControlsDelay (default_config zero_config) = Fin 3000
   \<and> skipButton_inert (step (init (default_config zero_config)) (Ad (AdTimeupdate (Fin 0))))
   \<and> \<not> skipButton_active (step (init (default_config zero_config)) (Ad (AdTimeupdate (Fin 0))))"
proof -
  have skip: "raw_adVideo_skipAfter zero_config = Some (Fin 0)"
    by (simp add: zero_config_def)
  have delay: "raw_autoHideControlsDelay zero_config = Some (Fin 0)"
    by (simp add: zero_config_def)
  from zero_config_values_fall_back_to_defaults [of zero_config] skip delay
  show ?thesis by blast
qed

section \<open>Progress display of the main video\<close>



section \<open>Starting without an ad\<close>

text \<open>
  Claim C2. With no ad URL configured, activating the play button should reveal and start
  the main content. On the minimal configuration the constructor does not load the ad
  (\<^verbatim>\<open>setVideoSources\<close> tests the URL), yet the click handler reveals the ad element
  and plays it: the player is in the ad stage, the main video stays hidden and paused,
  and the only play command issued goes to the ad.
\<close>

theorem play_button_starts_ad_without_ad_url:
  "adVideo_url (default_config no_ad_config) = []
   \<and> stage (init (default_config no_ad_config)) = Some Thumbnail
   \<and> stage (step (init (default_config no_ad_config)) (Click PlayButtonClick)) = Some AdStage
   \<and> \<not> paused (adVideo (step (init (default_config no_ad_config)) (Click PlayButtonClick)))
   \<and> paused (mainVideo (step (init (default_config no_ad_config)) (Click PlayButtonClick)))
   \<and> cmds (step (init (default_config no_ad_config)) (Click PlayButtonClick))
       = [Load ThumbnailVideo, Load MainVideo, Play AdVideo]"
  by (simp add: example_defs no_ad_config_def run_defs init_defs prim_defs playButton_click_def stage_def)

section \<open>Advancing to the main video\<close>

lemma hidden_skip_twice:
  "insert AdOverlay (insert AdVideo
     (insert AdOverlay (insert AdVideo H) - {MainVideo} - {MainVideoControls}))
   = insert AdOverlay (insert AdVideo H) - {MainVideo} - {MainVideoControls}"
  by auto

text \<open>
  Claim C6. \<^verbatim>\<open>skipToMainVideo\<close> is idempotent: a second call leaves every field of
  the player as the first call left it. The three commands (pause and rewind of the ad,
  play of the main video) are issued again and change nothing. After one call the ad is
  paused at position zero and hidden with its overlay, the main video and its controls
  are revealed and the main video is playing.
\<close>

theorem skipToMainVideo_idempotent:
  "skipToMainVideo (skipToMainVideo s) =
     (skipToMainVideo s)\<lparr>cmds := cmds (skipToMainVideo s)
        @ [Pause AdVideo, Seek AdVideo (Fin 0), Play MainVideo]\<rparr>
   \<and> paused (adVideo (skipToMainVideo s)) \<and> currentTime (adVideo (skipToMainVideo s)) = Fin 0
   \<and> AdVideo \<in> hidden (skipToMainVideo s) \<and> AdOverlay \<in> hidden (skipToMainVideo s)
   \<and> MainVideo \<notin> hidden (skipToMainVideo s) \<and> MainVideoControls \<notin> hidden (skipToMainVideo s)
   \<and> \<not> paused (mainVideo (skipToMainVideo s))"
  by (simp add: skipToMainVideo_def prim_defs Let_def hidden_skip_twice)

section \<open>Seeking\<close>

text \<open>
  Claim C8. \<^verbatim>\<open>seekTo\<close> assigns its target to the position of the main video, and
  the media element, whose duration \<open>d\<close> is known, seeks to the target clamped to the
  range from \<open>0\<close> to \<open>d\<close>: a target beyond the duration leaves the position at the
  duration, a negative target leaves it at \<open>0\<close>, and the position is never outside the
  range.
\<close>

theorem seekTo_position_in_range:
  assumes "duration (mainVideo s) = Fin d" and "0 \<le> d"
  shows "currentTime (mainVideo (seekTo (Fin x) s)) = Fin (clamp x 0 d)
     \<and> (d < x \<longrightarrow> currentTime (mainVideo (seekTo (Fin x) s)) = Fin d)
     \<and> (x < 0 \<longrightarrow> currentTime (mainVideo (seekTo (Fin x) s)) = Fin 0)
     \<and> 0 \<le> clamp x 0 d \<and> clamp x 0 d \<le> d"
  using assms
  by (auto simp add: seekTo_def main_seek_def or_abort_def issue_def seek_position_known
      clamp_def min_def max_def)

theorem seekTo_position_in_range_witness:
  "duration (mainVideo loaded_player) = Fin 100 \<and> (0::rat) \<le> 100
   \<and> currentTime (mainVideo (seekTo (Fin 500) loaded_player)) = Fin 100
   \<and> currentTime (mainVideo (seekTo (Fin (- 5)) loaded_player)) = Fin 0
   \<and> currentTime (mainVideo (seekTo (Fin 30) loaded_player)) = Fin 30"
proof -
  have dur: "duration (mainVideo loaded_player) = Fin 100"
    by (simp add: example_defs loaded_player_def run_defs init_defs prim_defs
        playButton_click_def skipToMainVideo_def mainVideo_loadedmetadata_def Let_def)
  have "clamp 30 0 100 = (30::rat)" by (simp add: clamp_def)
  with seekTo_position_in_range [OF dur, of 500] seekTo_position_in_range [OF dur, of "- 5"]
    seekTo_position_in_range [OF dur, of 30] dur
  show ?thesis by (simp add: clamp_def)
qed

section \<open>Seeking by an offset\<close>

lemma showControls_keeps:
  "mainVideo (showControls s) = mainVideo s" "cfg (showControls s) = cfg s"
  "hidden (showControls s) = hidden s" "adVideo (showControls s) = adVideo s"
  "listeners (showControls s) = listeners s" "cmds (showControls s) = cmds s"
  by (simp_all add: showControls_def prim_defs Let_def split: option.splits)

lemma keydown_arrows:
  assumes "MainVideoControls \<notin> hidden s"
  shows "document_keydown ''ArrowLeft'' s = skipBackward_click s"
    and "document_keydown ''ArrowRight'' s = skipForward_click s"
  using assms by (simp_all add: document_keydown_def skipBackward_click_def skipForward_click_def)

lemma skipBackward_value:
  assumes "currentTime (mainVideo s) = Fin p" "skipBackwardSeconds (cfg s) = Fin b"
    "duration (mainVideo s) = Fin d"
  shows "currentTime (mainVideo (skipBackward_click s)) = Fin (clamp (max 0 (p - b)) 0 d)"
    and "cfg (skipBackward_click s) = cfg s"
    and "duration (mainVideo (skipBackward_click s)) = duration (mainVideo s)"
  using assms
  by (simp_all add: skipBackward_click_def main_seek_def issue_def js_max_def js_sub_def
      showControls_keeps seek_position_known max_def)

lemma skipForward_value:
  assumes "currentTime (mainVideo s) = Fin p" "skipForwardSeconds (cfg s) = Fin f"
    "duration (mainVideo s) = Fin d"
  shows "currentTime (mainVideo (skipForward_click s)) = Fin (clamp (min d (p + f)) 0 d)"
    and "cfg (skipForward_click s) = cfg s"
    and "duration (mainVideo (skipForward_click s)) = duration (mainVideo s)"
  using assms
  by (simp_all add: skipForward_click_def main_seek_def issue_def js_min_def
      showControls_keeps seek_position_known min_def)

lemma skipBackward_at_zero:
  assumes "currentTime (mainVideo s) = Fin 0" "duration (mainVideo s) = Fin d" "0 \<le> d"
    "skipBackwardSeconds (cfg s) = Fin b" "0 \<le> b"
  shows "currentTime (mainVideo ((skipBackward_click ^^ n) s)) = Fin 0
     \<and> duration (mainVideo ((skipBackward_click ^^ n) s)) = Fin d
     \<and> cfg ((skipBackward_click ^^ n) s) = cfg s"
proof (induction n)
  case 0
  show ?case using assms by simp
next
  case (Suc n)
  then have ct: "currentTime (mainVideo ((skipBackward_click ^^ n) s)) = Fin 0"
    and du: "duration (mainVideo ((skipBackward_click ^^ n) s)) = Fin d"
    and b: "skipBackwardSeconds (cfg ((skipBackward_click ^^ n) s)) = Fin b"
    and c: "cfg ((skipBackward_click ^^ n) s) = cfg s"
    using assms by simp_all
  from skipBackward_value [OF ct b du] c du assms(3,5) show ?case
    by (simp add: clamp_def)
qed

lemma skipForward_at_end:
  assumes "currentTime (mainVideo s) = Fin d" "duration (mainVideo s) = Fin d" "0 \<le> d"
    "skipForwardSeconds (cfg s) = Fin f" "0 \<le> f"
  shows "currentTime (mainVideo ((skipForward_click ^^ n) s)) = Fin d
     \<and> duration (mainVideo ((skipForward_click ^^ n) s)) = Fin d
     \<and> cfg ((skipForward_click ^^ n) s) = cfg s"
proof (induction n)
  case 0
  show ?case using assms by simp
next
  case (Suc n)
  then have ct: "currentTime (mainVideo ((skipForward_click ^^ n) s)) = Fin d"
    and du: "duration (mainVideo ((skipForward_click ^^ n) s)) = Fin d"
    and f: "skipForwardSeconds (cfg ((skipForward_click ^^ n) s)) = Fin f"
    and c: "cfg ((skipForward_click ^^ n) s) = cfg s"
    using assms by simp_all
  from skipForward_value [OF ct f du] c du assms(3,5) show ?case
    by (simp add: clamp_def)
qed

text \<open>
  Claim C7. With the position \<open>p\<close> of the main video between \<open>0\<close> and its duration
  \<open>d\<close>, and configured steps that are not negative, the backward button moves the
  position to \<open>clamp (p - b) 0 d\<close> and the forward button to \<open>clamp (p + f) 0 d\<close>; the
  keys ArrowLeft and ArrowRight do exactly what the two buttons do. At the boundaries the
  operation is idempotent: any number of backward seeks from position \<open>0\<close> stays at \<open>0\<close>,
  any number of forward seeks from the duration stays at the duration.
\<close>

theorem seek_by_offset_clamps:
  assumes "currentTime (mainVideo s) = Fin p" and "duration (mainVideo s) = Fin d"
    and "0 \<le> p" and "p \<le> d"
    and "skipBackwardSeconds (cfg s) = Fin b" and "0 \<le> b"
    and "skipForwardSeconds (cfg s) = Fin f" and "0 \<le> f"
    and "MainVideoControls \<notin> hidden s"
  shows "currentTime (mainVideo (skipBackward_click s)) = Fin (clamp (p - b) 0 d)
     \<and> currentTime (mainVideo (skipForward_click s)) = Fin (clamp (p + f) 0 d)
     \<and> document_keydown ''ArrowLeft'' s = skipBackward_click s
     \<and> document_keydown ''ArrowRight'' s = skipForward_click s
     \<and> (p = 0 \<longrightarrow> currentTime (mainVideo ((skipBackward_click ^^ n) s)) = Fin 0)
     \<and> (p = d \<longrightarrow> currentTime (mainVideo ((skipForward_click ^^ n) s)) = Fin d)"
proof -
  have bwd: "currentTime (mainVideo (skipBackward_click s)) = Fin (clamp (p - b) 0 d)"
    using skipBackward_value(1) [OF assms(1) assms(5) assms(2)] assms(3,4,6)
    by (simp add: clamp_def min_def max_def)
  have fwd: "currentTime (mainVideo (skipForward_click s)) = Fin (clamp (p + f) 0 d)"
    using skipForward_value(1) [OF assms(1) assms(7) assms(2)] assms(3,4,8)
    by (simp add: clamp_def min_def max_def)
  have zero: "p = 0 \<longrightarrow> currentTime (mainVideo ((skipBackward_click ^^ n) s)) = Fin 0"
    using skipBackward_at_zero [OF _ assms(2) _ assms(5) assms(6), of n] assms(1,3,4) by auto
  have atend: "p = d \<longrightarrow> currentTime (mainVideo ((skipForward_click ^^ n) s)) = Fin d"
    using skipForward_at_end [OF _ assms(2) _ assms(7) assms(8), of n] assms(1,3,4) by auto
  from bwd fwd zero atend keydown_arrows [OF assms(9)] show ?thesis by simp
qed


theorem seek_by_offset_clamps_witness:
  "currentTime (mainVideo loaded_player) = Fin 0 \<and> duration (mainVideo loaded_player) = Fin 100
   \<and> skipBackwardSeconds (cfg loaded_player) = Fin 10
   \<and> skipForwardSeconds (cfg loaded_player) = Fin 10
   \<and> MainVideoControls \<notin> hidden loaded_player
   \<and> currentTime (mainVideo (skipBackward_click loaded_player)) = Fin 0
   \<and> currentTime (mainVideo (skipForward_click loaded_player)) = Fin 10
   \<and> currentTime (mainVideo ((skipBackward_click ^^ 3) loaded_player)) = Fin 0"
proof -
  have ct: "currentTime (mainVideo loaded_player) = Fin 0"
    and du: "duration (mainVideo loaded_player) = Fin 100"
    and sb: "skipBackwardSeconds (cfg loaded_player) = Fin 10"
    and sf: "skipForwardSeconds (cfg loaded_player) = Fin 10"
    and vis: "MainVideoControls \<notin> hidden loaded_player"
    by (simp_all add: example_defs loaded_player_def run_defs init_defs prim_defs playButton_click_def
        skipToMainVideo_def mainVideo_loadedmetadata_def Let_def)
  have "clamp (0 - 10) 0 100 = (0::rat)" and "clamp (0 + 10) 0 100 = (10::rat)"
    by (simp_all add: clamp_def)
  with seek_by_offset_clamps [OF ct du _ _ sb _ sf _ vis, of 3] ct du sb sf vis
  show ?thesis by simp
qed

section \<open>The skip threshold\<close>

text \<open>
  Claim C5. The skip action should be disabled while the elapsed seconds are below the
  threshold. On the example player in the ad stage, with a threshold of 5 seconds and
  the ad one second in, the skip button carries the classes that hide it and take it out
  of pointer events, and the countdown shows 4. The button is still rendered and can be
  activated from the keyboard; its click handler tests no threshold and runs
  \<^verbatim>\<open>skipToMainVideo\<close>: the ad is skipped and the main video plays.
\<close>

theorem skip_runs_before_threshold:
  "stage ad_stage_player = Some AdStage
   \<and> adVideo_skipAfter (cfg ad_stage_player) = Fin 5
   \<and> js_floor (currentTime (adVideo ad_stage_player)) = Fin 1
   \<and> skipButton_inert ad_stage_player \<and> \<not> skipButton_active ad_stage_player
   \<and> SkipCountdown \<notin> hidden ad_stage_player \<and> skipTimer_text ad_stage_player = Fin 4
   \<and> deliverable ad_stage_player (Click SkipButtonClick)
   \<and> stage (step ad_stage_player (Click SkipButtonClick)) = Some MainStage
   \<and> \<not> paused (mainVideo (step ad_stage_player (Click SkipButtonClick)))
   \<and> paused (adVideo (step ad_stage_player (Click SkipButtonClick)))"
  by (simp add: example_defs ad_stage_player_def run_defs init_defs prim_defs
      playButton_click_def adVideo_play_def adVideo_timeupdate_def skipToMainVideo_def
      stage_def js_ge_def js_sub_def Let_def)

text \<open>
  What the code does keep is the look of the button. To the pointer the button is hidden
  and inert from the ad's \<^verbatim>\<open>play\<close> notification until the first position whose
  whole seconds reach the threshold, and shown from then on.
\<close>

lemma ad_positions_snoc:
  "ad_positions s (ps @ [p]) = step (ad_positions s ps) (Ad (AdTimeupdate (Fin p)))"
  by (simp add: ad_positions_def run_def)

lemma ad_timeupdate_step:
  assumes "registered TAdVideo ''timeupdate'' s" "adVideo_skipAfter (cfg s) = Fin t"
  shows "skipButton_active (step s (Ad (AdTimeupdate (Fin p))))
           = (skipButton_active s \<or> t \<le> of_int \<lfloor>p\<rfloor>)"
    and "skipButton_inert (step s (Ad (AdTimeupdate (Fin p))))
           = (skipButton_inert s \<and> of_int \<lfloor>p\<rfloor> < t)"
    and "(SkipCountdown \<in> hidden (step s (Ad (AdTimeupdate (Fin p)))))
           = (SkipCountdown \<in> hidden s \<or> t \<le> of_int \<lfloor>p\<rfloor>)"
    and "of_int \<lfloor>p\<rfloor> < t \<Longrightarrow>
           skipTimer_text (step s (Ad (AdTimeupdate (Fin p)))) = Fin (t - of_int \<lfloor>p\<rfloor>)"
    and "cfg (step s (Ad (AdTimeupdate (Fin p)))) = cfg s"
    and "listeners (step s (Ad (AdTimeupdate (Fin p)))) = listeners s"
  using assms
  by (auto simp add: step_def dispatch_def registered_def adVideo_timeupdate_def Let_def
      js_ge_def js_sub_def add_hidden_def)

text \<open>
  What a run of position notifications does to the classes of the skip button: the handler
  shows the button at the first position whose whole seconds reach the threshold and
  never hides it again; only the ad's \<^verbatim>\<open>play\<close> notification does.
\<close>

lemma ad_positions_latch:
  assumes "registered TAdVideo ''timeupdate'' s" "adVideo_skipAfter (cfg s) = Fin t"
  shows "skipButton_active (ad_positions s ps)
           = (skipButton_active s \<or> (\<exists>q \<in> set ps. t \<le> of_int \<lfloor>q\<rfloor>))
     \<and> skipButton_inert (ad_positions s ps)
           = (skipButton_inert s \<and> (\<forall>q \<in> set ps. of_int \<lfloor>q\<rfloor> < t))
     \<and> (SkipCountdown \<in> hidden (ad_positions s ps))
           = (SkipCountdown \<in> hidden s \<or> (\<exists>q \<in> set ps. t \<le> of_int \<lfloor>q\<rfloor>))
     \<and> cfg (ad_positions s ps) = cfg s
     \<and> listeners (ad_positions s ps) = listeners s"
proof (induction ps rule: rev_induct)
  case Nil
  show ?case by (simp add: ad_positions_def run_def)
next
  case (snoc p ps)
  let ?s = "ad_positions s ps"
  from snoc assms have reg: "registered TAdVideo ''timeupdate'' ?s"
    and thr: "adVideo_skipAfter (cfg ?s) = Fin t"
    by (simp_all add: registered_def)
  from ad_timeupdate_step(1,2,3,5,6) [OF reg thr, of p] snoc
  show ?case unfolding ad_positions_snoc by auto
qed


text \<open>
  A later position below the threshold does not hide the button again: after the positions
  6 and 3, with a threshold of 5, the button is shown and the countdown hidden.
\<close>

lemma skip_stays_shown_after_backward_update:
  "skipButton_active (ad_positions ad_stage_player [6, 3])
   \<and> \<not> skipButton_inert (ad_positions ad_stage_player [6, 3])
   \<and> SkipCountdown \<in> hidden (ad_positions ad_stage_player [6, 3])
   \<and> js_floor (currentTime (adVideo (ad_positions ad_stage_player [6, 3]))) = Fin 3"
  by (simp add: example_defs ad_stage_player_def ad_positions_def run_defs init_defs prim_defs
      playButton_click_def adVideo_play_def adVideo_timeupdate_def js_ge_def js_sub_def Let_def)

section \<open>The main stage is final\<close>

lemma main_stage_elems:
  "stage s = Some MainStage \<longleftrightarrow>
     ThumbnailVideo \<in> hidden s \<and> PlayOverlay \<in> hidden s \<and> AdVideo \<in> hidden s
     \<and> AdOverlay \<in> hidden s \<and> MainVideo \<notin> hidden s \<and> MainVideoControls \<notin> hidden s"
  by (auto simp add: stage_def)

lemma no_stage_change_refl: "no_stage_change s s"
  by (simp add: no_stage_change_def issued_since_def)

lemma no_stage_change_trans:
  assumes "no_stage_change s s'" "no_stage_change s' s''"
  shows "no_stage_change s s''"
proof -
  from assms have c1: "cmds s' = cmds s @ issued_since s s'"
    and c2: "cmds s'' = cmds s' @ issued_since s' s''"
    by (simp_all add: no_stage_change_def)
  then have "issued_since s s'' = issued_since s s' @ issued_since s' s''"
    by (metis append.assoc append_eq_conv_conj issued_since_def)
  with assms c1 c2 show ?thesis
    by (auto simp add: no_stage_change_def)
qed

lemma no_stage_change_stage:
  "no_stage_change s s' \<Longrightarrow> stage s = Some MainStage \<Longrightarrow> stage s' = Some MainStage"
  by (simp add: no_stage_change_def main_stage_elems)

lemma showControls_no_stage_change: "no_stage_change s (showControls s)"
  by (simp add: no_stage_change_def issued_since_def showControls_keeps)

lemma clearTimeout_keeps:
  "hidden (clearTimeout h s) = hidden s" "cmds (clearTimeout h s) = cmds s"
  by (simp_all add: clearTimeout_def split: option.splits)

lemmas frame_defs = no_stage_change_def issued_since_def dispatch_def registered_def
  add_hidden_def remove_hidden_def toggle_hidden_def issue_def ad_play_def ad_pause_def
  main_play_def main_pause_def ad_seek_def main_seek_def main_set_volume_def or_abort_def
  click_bubbles_def document_click_def showControls_keeps clearTimeout_keeps

lemma handle_ad_main_stage:
  "stage s = Some MainStage \<Longrightarrow> no_stage_change s (handle_ad s e)"
  by (cases e) (auto simp add: main_stage_elems frame_defs adVideo_loadedmetadata_def
      adVideo_timeupdate_def adVideo_play_def skipToMainVideo_def adVideo_waiting_def
      adVideo_canplay_def adVideo_playing_def adVideo_seeking_def adVideo_seeked_def Let_def)

lemma handle_main_main_stage:
  "stage s = Some MainStage \<Longrightarrow> no_stage_change s (handle_main s e)"
  by (cases e) (simp_all add: main_stage_elems frame_defs togglePlayPause_def
      updatePlayPauseIcons_def mainVideo_play_def
      mainVideo_pause_def mainVideo_timeupdate_def mainVideo_loadedmetadata_def
      mainVideo_waiting_def mainVideo_canplay_def mainVideo_playing_def mainVideo_seeking_def
      mainVideo_seeked_def Let_def)


lemma handle_click_main_stage:
  "stage s = Some MainStage \<Longrightarrow> click_deliverable s c \<Longrightarrow> no_stage_change s (handle_click s c)"
  by (cases c) (simp_all add: main_stage_elems frame_defs togglePlayPause_def
      skipBackward_click_def skipForward_click_def progressBar_click_def volumeBtn_click_def
      fullscreenBtn_click_def settingsBtn_click_def speedMenuBtn_click_def
      qualityMenuBtn_click_def speedOption_click_def qualityOption_click_def
      skipToMainVideo_def playButton_click_def Let_def)

lemma handle_pointer_main_stage:
  "stage s = Some MainStage \<Longrightarrow> no_stage_change s (handle_pointer s p)"
  by (cases p) (simp_all add: main_stage_elems frame_defs videoContainer_mousemove_def
      videoContainer_mouseleave_def bottomControls_mouseenter_def bottomControls_mouseleave_def
      settingsContainer_mouseenter_def settingsContainer_mouseleave_def Let_def)

lemma handle_call_main_stage:
  "stage s = Some MainStage \<Longrightarrow> no_stage_change s (handle_call s c)"
  by (cases c) (simp_all add: main_stage_elems frame_defs play_def pause_def setVolume_def
      seekTo_def destroy_def Let_def)


lemma seek_then_show_no_stage_change:
  "no_stage_change s (case main_seek v s of None \<Rightarrow> s | Some s1 \<Rightarrow> showControls s1)"
  by (simp add: frame_defs)

lemma volume_then_slider_no_stage_change:
  "no_stage_change s
     (case main_set_volume v s of None \<Rightarrow> s
      | Some s1 \<Rightarrow> s1\<lparr>volumeSlider_value := js_mul (volume (mainVideo s1)) (Fin 100)\<rparr>)"
  by (simp add: frame_defs)

lemma togglePlayPause_no_stage_change: "no_stage_change s (togglePlayPause s)"
  by (simp add: frame_defs togglePlayPause_def)

lemma fullscreen_key_no_stage_change:
  "no_stage_change s (click_bubbles (dispatch TFullscreenBtn ''click'' fullscreenBtn_click s))"
  by (simp add: frame_defs fullscreenBtn_click_def)

lemma volume_key_no_stage_change:
  "no_stage_change s (click_bubbles (dispatch TVolumeBtn ''click'' volumeBtn_click s))"
  by (simp add: frame_defs volumeBtn_click_def)

lemma document_keydown_main_stage: "no_stage_change s (document_keydown key s)"
  unfolding document_keydown_def
  by (simp add: no_stage_change_refl seek_then_show_no_stage_change
      volume_then_slider_no_stage_change togglePlayPause_no_stage_change
      fullscreen_key_no_stage_change volume_key_no_stage_change)

lemma step_main_stage:
  assumes "stage s = Some MainStage"
  shows "no_stage_change s (step s e)"
proof (cases "deliverable s e")
  case False
  then show ?thesis by (simp add: step_def no_stage_change_refl)
next
  case True
  show ?thesis
  proof (cases e)
    case (Ad a)
    with assms True show ?thesis by (simp add: step_def handle_ad_main_stage)
  next
    case (Main m)
    with assms True show ?thesis by (simp add: step_def handle_main_main_stage)
  next
    case (Click c)
    with assms True show ?thesis by (simp add: step_def handle_click_main_stage)
  next
    case (Pointer p)
    with assms True show ?thesis by (simp add: step_def handle_pointer_main_stage)
  next
    case (VolumeSliderInput v)
    with assms True show ?thesis
      by (simp add: step_def main_stage_elems frame_defs volumeSlider_input_def Let_def)
  next
    case (FullscreenChange b)
    with assms True show ?thesis
      by (simp add: step_def main_stage_elems frame_defs document_fullscreenchange_def)
  next
    case (KeyDown key)
    with assms True document_keydown_main_stage [of s key] show ?thesis
      by (simp add: step_def dispatch_def no_stage_change_refl)
  next
    case (TimerFire i)
    with assms True show ?thesis
      by (simp add: step_def main_stage_elems frame_defs hideControls_callback_def)
  next
    case (Call c)
    with assms True show ?thesis by (simp add: step_def handle_call_main_stage)
  qed
qed

lemma run_main_stage:
  "stage s = Some MainStage \<Longrightarrow> no_stage_change s (run s es)"
proof (induction es arbitrary: s)
  case Nil
  show ?case by (simp add: run_def no_stage_change_refl)
next
  case (Cons e es)
  from Cons.prems have one: "no_stage_change s (step s e)" by (rule step_main_stage)
  from one Cons.prems have "stage (step s e) = Some MainStage" by (rule no_stage_change_stage)
  then have "no_stage_change (step s e) (run (step s e) es)" by (rule Cons.IH)
  with one have "no_stage_change s (run (step s e) es)" by (rule no_stage_change_trans)
  then show ?case by (simp add: run_def)
qed

text \<open>
  Claim C3, as stated: after the main stage has been entered no sequence of events returns
  to the thumbnail or the ad, and the ad gets no playback command again. The skip button
  is rendered from construction on and has no stage test: activated from the keyboard
  before the play button, it runs \<^verbatim>\<open>skipToMainVideo\<close>, which reveals and plays the
  main video over the thumbnail; the play button, still showing, then reveals the ad and
  plays it. And in the main stage proper a repeated end-of-media notification of the ad
  runs \<^verbatim>\<open>skipToMainVideo\<close> again, which pauses and rewinds the ad once more.
\<close>

theorem ad_shown_after_main_entered:
  "MainVideo \<notin> hidden (run example_player [Click SkipButtonClick])
   \<and> MainVideoControls \<notin> hidden (run example_player [Click SkipButtonClick])
   \<and> \<not> paused (mainVideo (run example_player [Click SkipButtonClick]))
   \<and> AdVideo \<in> hidden (run example_player [Click SkipButtonClick])
   \<and> AdVideo \<notin> hidden (run example_player [Click SkipButtonClick, Click PlayButtonClick])
   \<and> \<not> paused (adVideo (run example_player [Click SkipButtonClick, Click PlayButtonClick]))
   \<and> issued_since (run example_player [Click SkipButtonClick])
        (run example_player [Click SkipButtonClick, Click PlayButtonClick]) = [Play AdVideo]
   \<and> stage main_stage_player = Some MainStage
   \<and> issued_since main_stage_player (run main_stage_player [Ad AdEnded])
        = [Pause AdVideo, Seek AdVideo (Fin 0), Play MainVideo]"
  by (simp add: example_defs run_defs init_defs prim_defs playButton_click_def
      skipToMainVideo_def stage_def issued_since_def Let_def)

text \<open>
  Claim C3, amended. Once the main stage has been entered through the ad stage, so that
  the main video and its controls are shown and the thumbnail, the play overlay, the ad
  and the ad overlay are hidden, then whatever events follow (activations of controls,
  pointer movements, keys, notifications of either media element, timer expiries, calls
  of the public methods), the player stays in the main stage: those four elements stay
  hidden, nothing is issued to the thumbnail, and the ad gets no play command; the only
  commands it can still get are the pause and the rewind to zero of
  \<^verbatim>\<open>skipToMainVideo\<close>.
\<close>

theorem main_stage_is_final:
  assumes "stage s = Some MainStage"
  shows "stage (run s es) = Some MainStage
     \<and> ThumbnailVideo \<in> hidden (run s es) \<and> PlayOverlay \<in> hidden (run s es)
     \<and> AdVideo \<in> hidden (run s es) \<and> AdOverlay \<in> hidden (run s es)
     \<and> (\<forall>c \<in> set (issued_since s (run s es)). main_stage_cmd c)"
proof -
  from assms have frame: "no_stage_change s (run s es)" by (rule run_main_stage)
  from frame assms have "stage (run s es) = Some MainStage" by (rule no_stage_change_stage)
  with frame show ?thesis by (simp add: no_stage_change_def main_stage_elems)
qed

theorem main_stage_is_final_witness:
  "stage main_stage_player = Some MainStage
   \<and> stage (run main_stage_player
        [Click PlayButtonClick, Click SkipButtonClick, Ad AdEnded, Ad AdPlay, KeyDown ''k''])
       = Some MainStage
   \<and> Play AdVideo \<notin> set (issued_since main_stage_player (run main_stage_player
        [Click PlayButtonClick, Click SkipButtonClick, Ad AdEnded, Ad AdPlay, KeyDown ''k'']))"
proof -
  have main: "stage main_stage_player = Some MainStage"
    by (simp add: example_defs run_defs init_defs prim_defs playButton_click_def
        skipToMainVideo_def stage_def Let_def)
  have "\<not> main_stage_cmd (Play AdVideo)" by simp
  with main_stage_is_final [OF main] main show ?thesis by blast
qed

section \<open>Teardown\<close>

text \<open>
  Claim C9, as stated: after \<^verbatim>\<open>destroy\<close> no handler registered by the instance can
  run. On the example player, playing with its hide timer armed, \<^verbatim>\<open>destroy\<close> does
  cancel the timer, but the document's key and click listeners are still registered, and
  the key \<^verbatim>\<open>k\<close> still runs the key handler, which pauses the main video.
\<close>

theorem handlers_run_after_destroy:
  "pending armed_player = [0]
   \<and> pending (destroy armed_player) = []
   \<and> (TDocument, ''keydown'') \<in> set (listeners (destroy armed_player))
   \<and> (TDocument, ''click'') \<in> set (listeners (destroy armed_player))
   \<and> \<not> paused (mainVideo (destroy armed_player))
   \<and> paused (mainVideo (step (destroy armed_player) (KeyDown ''k'')))"
  by (simp add: example_defs armed_player_def run_defs init_defs prim_defs playButton_click_def
      skipToMainVideo_def mainVideo_play_def updatePlayPauseIcons_def showControls_def
      destroy_def document_keydown_def togglePlayPause_def Let_def)

lemma removeAll_only:
  "\<forall>x \<in> set xs. x = i \<Longrightarrow> removeAll i xs = []"
  by (induction xs) auto

text \<open>
  Claim C9, amended. \<^verbatim>\<open>destroy\<close> cancels the pending hide timer and does nothing
  else: the timeout that \<^verbatim>\<open>hideControlsTimeout\<close> names is no longer pending (under
  the timer discipline, none is), no other field changes, and every listener registered
  during setup is still registered.
\<close>

theorem destroy_only_cancels_timer:
  "listeners (destroy s) = listeners s
   \<and> destroy s = s\<lparr>pending := pending (destroy s)\<rparr>
   \<and> (\<forall>i. hideControlsTimeout s = Some i \<longrightarrow> i \<notin> set (pending (destroy s)))
   \<and> (timer_inv s \<longrightarrow> pending (destroy s) = [])"
proof -
  have "timer_inv s \<longrightarrow> pending (destroy s) = []"
  proof (cases "hideControlsTimeout s")
    case None
    then show ?thesis by (auto simp add: destroy_def clearTimeout_def timer_inv_def)
  next
    case (Some i)
    then show ?thesis
      by (auto simp add: destroy_def clearTimeout_def timer_inv_def intro: removeAll_only)
  qed
  then show ?thesis
    by (simp add: destroy_def clearTimeout_def split: option.splits)
qed

theorem destroy_only_cancels_timer_witness:
  "timer_inv armed_player \<and> hideControlsTimeout armed_player = Some 0
   \<and> pending armed_player = [0] \<and> pending (destroy armed_player) = []
   \<and> listeners (destroy armed_player) = listeners armed_player"
proof -
  have inv: "timer_inv armed_player" and h: "hideControlsTimeout armed_player = Some 0"
    and p: "pending armed_player = [0]"
    by (simp_all add: example_defs armed_player_def run_defs init_defs prim_defs playButton_click_def
      skipToMainVideo_def mainVideo_play_def updatePlayPauseIcons_def showControls_def
      timer_inv_def Let_def)
  from destroy_only_cancels_timer [of armed_player] inv h p show ?thesis by blast
qed

section \<open>The hide timer\<close>

text \<open>
  Claim C4. The hide timer should never fire while the settings menu is open. On the
  example player, playing with its hide timer armed by the \<^verbatim>\<open>play\<close> notification,
  activating the settings button opens the menu and leaves the timer pending: the click
  handler sets \<^verbatim>\<open>isSettingsOpen\<close> and does not call \<^verbatim>\<open>clearTimeout\<close>. The
  timer then fires with the menu open and sets the opacity of the controls, the settings
  container among them, to \<open>0\<close>.
\<close>

theorem hide_timer_fires_with_settings_open:
  "\<not> paused (mainVideo armed_player) \<and> pending armed_player = [0]
   \<and> controls_opacity armed_player = 1
   \<and> isSettingsOpen (step armed_player (Click SettingsBtnClick))
   \<and> SettingsMenu \<notin> hidden (step armed_player (Click SettingsBtnClick))
   \<and> deliverable (step armed_player (Click SettingsBtnClick)) (TimerFire 0)
   \<and> isSettingsOpen (run armed_player [Click SettingsBtnClick, TimerFire 0])
   \<and> SettingsMenu \<notin> hidden (run armed_player [Click SettingsBtnClick, TimerFire 0])
   \<and> controls_opacity (run armed_player [Click SettingsBtnClick, TimerFire 0]) = 0"
  by (simp add: example_defs armed_player_def run_defs init_defs prim_defs playButton_click_def
      skipToMainVideo_def mainVideo_play_def updatePlayPauseIcons_def showControls_def
      settingsBtn_click_def hideControls_callback_def Let_def)


text \<open>
  What the code does keep. \<^verbatim>\<open>showControls\<close> cancels before it arms, and arms only
  while the video plays, the pointer is off the control surface and the settings menu is
  closed; the handlers that set \<^verbatim>\<open>isUserInteracting\<close> and the \<^verbatim>\<open>pause\<close> handler
  cancel the pending timer. So the timer discipline is an invariant of every event.
\<close>

lemma showControls_timer_inv:
  assumes "\<forall>i \<in> set (pending s). hideControlsTimeout s = Some i"
  shows "timer_inv (showControls s)"
proof (cases "hideControlsTimeout s")
  case None
  with assms have "pending s = []" by (cases "pending s") auto
  with None show ?thesis
    by (simp add: timer_inv_def showControls_def clearTimeout_def setTimeout_def Let_def)
next
  case (Some i)
  with assms have "removeAll i (pending s) = []" by (auto intro: removeAll_only)
  with Some show ?thesis
    by (simp add: timer_inv_def showControls_def clearTimeout_def setTimeout_def Let_def)
qed

lemma timer_inv_same:
  assumes "timer_inv s" "pending s' = pending s" "hideControlsTimeout s' = hideControlsTimeout s"
    "isUserInteracting s' = isUserInteracting s"
  shows "timer_inv s'"
  using assms by (simp add: timer_inv_def)

lemma timer_inv_cleared:
  assumes "pending s' = []"
  shows "timer_inv s'"
  using assms by (simp add: timer_inv_def)

lemma timer_inv_show:
  assumes "timer_inv s" "pending s' = pending s" "hideControlsTimeout s' = hideControlsTimeout s"
  shows "timer_inv (showControls s')"
  using assms by (intro showControls_timer_inv) (simp add: timer_inv_def)

lemma timer_inv_clear:
  assumes "timer_inv s" "pending s' = pending s"
  shows "pending (clearTimeout (hideControlsTimeout s) s') = []"
proof (cases "hideControlsTimeout s")
  case None
  with assms have "pending s = []" by (cases "pending s") (auto simp add: timer_inv_def)
  with None assms show ?thesis by (simp add: clearTimeout_def)
next
  case (Some i)
  with assms have "removeAll i (pending s) = []"
    by (auto simp add: timer_inv_def intro: removeAll_only)
  with Some assms show ?thesis by (simp add: clearTimeout_def)
qed

lemmas timer_defs = dispatch_def registered_def add_hidden_def remove_hidden_def
  toggle_hidden_def issue_def ad_play_def ad_pause_def main_play_def main_pause_def ad_seek_def
  main_seek_def main_set_volume_def or_abort_def click_bubbles_def document_click_def

lemma handle_ad_timer_inv: "timer_inv s \<Longrightarrow> timer_inv (handle_ad s e)"
  by (cases e) (auto elim!: timer_inv_same simp add: timer_defs adVideo_loadedmetadata_def
      adVideo_timeupdate_def adVideo_play_def skipToMainVideo_def adVideo_waiting_def
      adVideo_canplay_def adVideo_playing_def adVideo_seeking_def adVideo_seeked_def Let_def)


lemma mainVideo_play_timer_inv: "timer_inv s \<Longrightarrow> timer_inv (mainVideo_play s)"
  unfolding mainVideo_play_def
  by (rule timer_inv_show [of s]) (simp_all add: updatePlayPauseIcons_def timer_defs)

lemma mainVideo_pause_timer_inv: "timer_inv s \<Longrightarrow> timer_inv (mainVideo_pause s)"
  by (rule timer_inv_cleared)
     (simp add: mainVideo_pause_def Let_def timer_inv_clear updatePlayPauseIcons_def timer_defs)

lemma seek_then_show_timer_inv:
  "timer_inv s \<Longrightarrow> timer_inv (case main_seek v s of None \<Rightarrow> s | Some s1 \<Rightarrow> showControls s1)"
  by (cases "js_finite v") (auto simp add: main_seek_def issue_def intro: timer_inv_show [of s])

lemma mousemove_timer_inv: "timer_inv s \<Longrightarrow> timer_inv (videoContainer_mousemove s)"
  by (auto simp add: videoContainer_mousemove_def intro: timer_inv_show [of s])

lemma mouseleave_timer_inv: "timer_inv s \<Longrightarrow> timer_inv (videoContainer_mouseleave s)"
  by (auto simp add: videoContainer_mouseleave_def elim: timer_inv_same)

lemma bottom_enter_timer_inv: "timer_inv s \<Longrightarrow> timer_inv (bottomControls_mouseenter s)"
  by (rule timer_inv_cleared)
     (simp add: bottomControls_mouseenter_def Let_def timer_inv_clear)

lemma bottom_leave_timer_inv: "timer_inv s \<Longrightarrow> timer_inv (bottomControls_mouseleave s)"
  unfolding bottomControls_mouseleave_def
  by (rule timer_inv_show [of s]) simp_all

lemma settings_enter_timer_inv: "timer_inv s \<Longrightarrow> timer_inv (settingsContainer_mouseenter s)"
  by (rule timer_inv_cleared)
     (simp add: settingsContainer_mouseenter_def Let_def timer_inv_clear)

lemma settings_leave_timer_inv: "timer_inv s \<Longrightarrow> timer_inv (settingsContainer_mouseleave s)"
  by (auto simp add: settingsContainer_mouseleave_def intro: timer_inv_show [of s])

lemma destroy_timer_inv: "timer_inv s \<Longrightarrow> timer_inv (destroy s)"
  by (rule timer_inv_cleared) (simp add: destroy_def timer_inv_clear)

lemma timer_fire_timer_inv:
  "timer_inv s \<Longrightarrow> timer_inv (hideControls_callback (s\<lparr>pending := removeAll i (pending s)\<rparr>))"
  by (auto simp add: timer_inv_def hideControls_callback_def distinct_removeAll)

lemma handle_main_timer_inv: "timer_inv s \<Longrightarrow> timer_inv (handle_main s e)"
  by (cases e) (auto simp add: dispatch_def mainVideo_play_timer_inv mainVideo_pause_timer_inv
      mainVideo_timeupdate_def mainVideo_loadedmetadata_def mainVideo_waiting_def
      mainVideo_canplay_def mainVideo_playing_def mainVideo_seeking_def mainVideo_seeked_def
      add_hidden_def remove_hidden_def Let_def elim: timer_inv_same)

lemma handle_pointer_timer_inv: "timer_inv s \<Longrightarrow> timer_inv (handle_pointer s p)"
  by (cases p) (simp_all add: dispatch_def mousemove_timer_inv mouseleave_timer_inv
      bottom_enter_timer_inv bottom_leave_timer_inv settings_enter_timer_inv
      settings_leave_timer_inv)


lemma click_bubbles_timer_inv: "timer_inv s \<Longrightarrow> timer_inv (click_bubbles s)"
  by (auto simp add: timer_defs elim: timer_inv_same)

lemma plain_handlers_timer_inv:
  assumes "timer_inv s"
  shows "timer_inv (playButton_click s)" "timer_inv (skipToMainVideo s)"
    "timer_inv (togglePlayPause s)" "timer_inv (progressBar_click p s)"
    "timer_inv (volumeBtn_click s)" "timer_inv (fullscreenBtn_click s)"
    "timer_inv (settingsBtn_click s)" "timer_inv (speedMenuBtn_click s)"
    "timer_inv (qualityMenuBtn_click s)" "timer_inv (speedOption_click v s)"
    "timer_inv (qualityOption_click s)" "timer_inv (document_click inside s)"
    "timer_inv (volumeSlider_input v s)" "timer_inv (document_fullscreenchange s)"
    "timer_inv (play s)" "timer_inv (pause s)" "timer_inv (setVolume v s)"
    "timer_inv (seekTo v s)"
  using assms
  by (auto simp add: timer_defs playButton_click_def skipToMainVideo_def togglePlayPause_def
      progressBar_click_def volumeBtn_click_def fullscreenBtn_click_def settingsBtn_click_def
      speedMenuBtn_click_def qualityMenuBtn_click_def speedOption_click_def
      qualityOption_click_def volumeSlider_input_def document_fullscreenchange_def
      play_def pause_def setVolume_def seekTo_def Let_def elim: timer_inv_same)

lemma handle_click_timer_inv: "timer_inv s \<Longrightarrow> timer_inv (handle_click s c)"
  by (cases c) (simp_all add: dispatch_def click_bubbles_timer_inv plain_handlers_timer_inv
      skipBackward_click_def skipForward_click_def seek_then_show_timer_inv)

lemma handle_call_timer_inv: "timer_inv s \<Longrightarrow> timer_inv (handle_call s c)"
  by (cases c) (simp_all add: plain_handlers_timer_inv destroy_timer_inv)

lemma volume_then_slider_timer_inv:
  "timer_inv s \<Longrightarrow> timer_inv
     (case main_set_volume v s of None \<Rightarrow> s
      | Some s1 \<Rightarrow> s1\<lparr>volumeSlider_value := js_mul (volume (mainVideo s1)) (Fin 100)\<rparr>)"
  by (auto simp add: main_set_volume_def elim: timer_inv_same)

lemma document_keydown_timer_inv: "timer_inv s \<Longrightarrow> timer_inv (document_keydown key s)"
  unfolding document_keydown_def
  by (simp add: seek_then_show_timer_inv volume_then_slider_timer_inv dispatch_def
      click_bubbles_timer_inv plain_handlers_timer_inv)

lemma fullscreen_reading_timer_inv: "timer_inv (s\<lparr>fullscreenElement := b\<rparr>) = timer_inv s"
  by (simp add: timer_inv_def)

lemma step_timer_inv: "timer_inv s \<Longrightarrow> timer_inv (step s e)"
  by (cases e) (simp_all add: step_def dispatch_def handle_ad_timer_inv handle_main_timer_inv
      handle_click_timer_inv handle_pointer_timer_inv handle_call_timer_inv
      document_keydown_timer_inv timer_fire_timer_inv plain_handlers_timer_inv
      fullscreen_reading_timer_inv)

lemma run_timer_inv: "timer_inv s \<Longrightarrow> timer_inv (run s es)"
  unfolding run_def by (induction es arbitrary: s) (simp_all add: step_timer_inv)

lemma init_timer_inv: "timer_inv (init c)"
  by (simp add: timer_inv_def init_def bindKeyboardEvents_def bindSettingsEvents_def
      bindControlEvents_def bindMainVideoEvents_def bindAdEvents_def addEventListeners_def
      setVideoInfo_def setVideoSources_def createPlayerStructure_def issue_def Let_def)

text \<open>
  The rest of the discipline holds on every run from construction: at most one hide timer
  is pending, and none is pending while the pointer is over the control surface.
\<close>

lemma at_most_one_hide_timer:
  "length (pending (run (init c) es)) \<le> 1
   \<and> (isUserInteracting (run (init c) es) \<longrightarrow> pending (run (init c) es) = [])"
proof -
  have inv: "timer_inv (run (init c) es)" by (rule run_timer_inv) (rule init_timer_inv)
  have "length xs \<le> 1" if "distinct xs" "\<forall>i \<in> set xs. h = Some i" for xs :: "nat list" and h
    using that by (cases xs; cases "tl xs") auto
  with inv show ?thesis by (auto simp add: timer_inv_def)
qed


end
